theory Spec2Isabelle
  imports Main "HOL-Library.Word"
begin

section \<open>The TLS reconciler of controllers/tls/manager.go\<close>

text \<open>
  The reconciler keeps the certificate secret of the webhook server, pushes the CA bundle
  into both admission webhook configurations and the tenant custom resource definition,
  and stamps every operator pod with an update annotation.  The Kubernetes client is
  modelled as an explicit in-memory store that every operation takes and returns; the
  functions of the packages \<open>pkg/cert\<close> and \<open>pkg/configuration\<close>, which are not part of
  the file, are parameters, and so is what the process reads from its host (its name,
  its environment and the clock).  During a pass nothing but the pass writes the store,
  so an update never meets a conflict.
\<close>

subsection \<open>Basic types\<close>

type_synonym bytes = "8 word list"

text \<open>A \<open>time.Time\<close> as nanoseconds since the Unix epoch; a \<open>time.Duration\<close> is an \<open>int64\<close>
  count of nanoseconds.\<close>

type_synonym time = int
type_synonym duration = "64 word"

definition Second :: duration where
  "Second = 1000000000"

definition Hour :: duration where
  "Hour = 3600 * Second"

definition certificateExpirationThreshold :: duration where
  "certificateExpirationThreshold = 3 * 24 * Hour"

definition certificateReconciliationThreshold :: duration where
  "certificateReconciliationThreshold = 4 * 24 * Hour"

definition certificateValidity :: duration where
  "certificateValidity = 6 * 30 * 24 * Hour"

definition PodUpdateAnnotationName :: string where
  "PodUpdateAnnotationName = ''capsule.clastix.io/updated''"

definition TLSCertKey :: string where
  "TLSCertKey = ''tls.crt''"

definition TLSPrivateKeyKey :: string where
  "TLSPrivateKeyKey = ''tls.key''"

definition ServiceAccountRootCAKey :: string where
  "ServiceAccountRootCAKey = ''ca.crt''"

text \<open>\<open>t.Unix()\<close>: the whole seconds since the epoch, as an \<open>int64\<close>.\<close>

definition Unix :: "time \<Rightarrow> 64 word" where
  "Unix t = word_of_int (t div 1000000000)"

text \<open>\<open>t.Add(d)\<close>.\<close>

definition Add :: "time \<Rightarrow> duration \<Rightarrow> time" where
  "Add t d = t + sint d"

datatype error =
    NotFound
  | Conflict
  | CertError string
  | Errorf string
  | Invalid
  | NilPointerDereference

definition IsNotFound :: "error \<Rightarrow> bool" where
  "IsNotFound e = (case e of NotFound \<Rightarrow> True | _ \<Rightarrow> False)"

definition IsConflict :: "error \<Rightarrow> bool" where
  "IsConflict e = (case e of Conflict \<Rightarrow> True | _ \<Rightarrow> False)"

subsection \<open>Kubernetes objects\<close>

text \<open>Go maps that the code only reads and writes by key are maps; the label set, which the
  list call iterates over, is an association list.  A nil annotation map is \<open>None\<close>.\<close>

record ObjectMeta =
  Namespace :: string
  Name :: string
  Labels :: "(string \<times> string) list"
  Annotations :: "(string \<rightharpoonup> string) option"

type_synonym NamespacedName = "string \<times> string"

definition ObjectKey :: "ObjectMeta \<Rightarrow> NamespacedName" where
  "ObjectKey m = (Namespace m, Name m)"

definition emptyMeta :: ObjectMeta where
  "emptyMeta = \<lparr>Namespace = [], Name = [], Labels = [], Annotations = None\<rparr>"

record Secret =
  SecretMeta :: ObjectMeta
  Data :: "string \<rightharpoonup> bytes"
  SecretType :: string

record ServiceReference =
  SvcNamespace :: string
  SvcName :: string
  Path :: "string option"
  Port :: "32 word option"

record WebhookClientConfig =
  URL :: "string option"
  Service :: "ServiceReference option"
  CABundle :: bytes

record Webhook =
  WebhookName :: string
  ClientConfig :: WebhookClientConfig
  FailurePolicy :: "string option"
  SideEffects :: "string option"
  AdmissionReviewVersions :: "string list"

record WebhookConfiguration =
  ConfigMeta :: ObjectMeta
  Webhooks :: "Webhook list"

record WebhookConversion =
  ConversionClientConfig :: "WebhookClientConfig option"
  ConversionReviewVersions :: "string list"

record CustomResourceConversion =
  Strategy :: string
  ConversionWebhook :: "WebhookConversion option"

record CustomResourceDefinition =
  CRDMeta :: ObjectMeta
  Group :: string
  Conversion :: "CustomResourceConversion option"

record Pod =
  PodMeta :: ObjectMeta
  NodeName :: string

definition emptyPod :: Pod where
  "emptyPod = \<lparr>PodMeta = emptyMeta, NodeName = []\<rparr>"

subsection \<open>The store behind the client\<close>

record store =
  secrets :: "Secret list"
  validatingWebhookConfigurations :: "WebhookConfiguration list"
  mutatingWebhookConfigurations :: "WebhookConfiguration list"
  customResourceDefinitions :: "CustomResourceDefinition list"
  pods :: "Pod list"

text \<open>\<open>Client.Get\<close>: the stored object under the key, or the not-found error.  Every
  object of a cluster has a name, so nothing is found under the empty name.\<close>

definition clientGet :: "('o \<Rightarrow> ObjectMeta) \<Rightarrow> 'o list \<Rightarrow> NamespacedName \<Rightarrow> error + 'o" where
  "clientGet meta xs k =
     (if snd k = [] then Inl NotFound
      else (case find (\<lambda>x. ObjectKey (meta x) = k) xs of
              None \<Rightarrow> Inl NotFound
            | Some x \<Rightarrow> Inr x))"

text \<open>\<open>Client.Update\<close>: replaces the stored object that has the key of the given one.  An
  object without a name is refused as invalid (its name is required), and an object that
  is not stored cannot be updated.\<close>

definition clientUpdate :: "('o \<Rightarrow> ObjectMeta) \<Rightarrow> 'o list \<Rightarrow> 'o \<Rightarrow> error + 'o list" where
  "clientUpdate meta xs obj =
     (if Name (meta obj) = [] then Inl Invalid
      else (case find (\<lambda>x. ObjectKey (meta x) = ObjectKey (meta obj)) xs of
              None \<Rightarrow> Inl NotFound
            | Some _ \<Rightarrow>
                Inr (map (\<lambda>x. if ObjectKey (meta x) = ObjectKey (meta obj) then obj else x) xs)))"

text \<open>\<open>Client.Create\<close>.\<close>

definition clientCreate :: "'o list \<Rightarrow> 'o \<Rightarrow> 'o list" where
  "clientCreate xs obj = xs @ [obj]"

text \<open>\<open>controllerutil.CreateOrUpdate\<close>: reads the object under the key of the given one into
  it, applies the mutation, and creates the object when none was stored or updates it
  when the mutation changed it.\<close>

definition CreateOrUpdate ::
  "('o \<Rightarrow> ObjectMeta) \<Rightarrow> 'o list \<Rightarrow> 'o \<Rightarrow> ('o \<Rightarrow> 'o) \<Rightarrow> error + 'o list" where
  "CreateOrUpdate meta xs obj f =
     (case clientGet meta xs (ObjectKey (meta obj)) of
        Inl e \<Rightarrow> (if IsNotFound e then Inr (clientCreate xs (f obj)) else Inl e)
      | Inr existing \<Rightarrow>
          (if f existing = existing then Inr xs else clientUpdate meta xs (f existing)))"

text \<open>\<open>retry.RetryOnConflict\<close> with a backoff of the given number of steps: the function
  runs again while it fails with a conflict and steps remain.\<close>

fun RetryOnConflict ::
  "nat \<Rightarrow> (store \<Rightarrow> error option \<times> store) \<Rightarrow> store \<Rightarrow> error option \<times> store" where
  "RetryOnConflict 0 fn s = (None, s)"
| "RetryOnConflict (Suc n) fn s =
     (case fn s of
        (None, s') \<Rightarrow> (None, s')
      | (Some e, s') \<Rightarrow>
          (if IsConflict e \<and> n \<noteq> 0 then RetryOnConflict n fn s' else (Some e, s')))"

definition DefaultRetry :: nat where
  "DefaultRetry = 5"

definition DefaultBackoff :: nat where
  "DefaultBackoff = 4"

subsection \<open>Collaborators\<close>

text \<open>The options built by \<open>cert.NewCertOpts(notAfter, dnsNames...)\<close>.\<close>

datatype CertOpts = NewCertOpts time "string list"

text \<open>The functions of \<open>pkg/cert\<close> that the reconciler calls, as they answer during one
  pass.  \<open>CACertificatePem\<close> returns a buffer pointer and an error; the buffers of a
  successful \<open>GenerateCertificate\<close> are given by their contents.\<close>

record ('cert, 'key, 'ca) cert_pkg =
  GenerateCertificateAuthority :: "error + 'ca"
  GenerateCertificate :: "'ca \<Rightarrow> CertOpts \<Rightarrow> error + (bytes \<times> bytes)"
  CACertificatePem :: "'ca \<Rightarrow> bytes option \<times> error option"
  GetCertificateWithPrivateKeyFromBytes :: "bytes \<Rightarrow> bytes \<Rightarrow> error + ('cert \<times> 'key)"
  GetCertificateFromBytes :: "bytes \<Rightarrow> error + 'cert"
  ValidateCertificate :: "'cert \<Rightarrow> 'key \<Rightarrow> duration \<Rightarrow> error option"
  NotAfter :: "'cert \<Rightarrow> time"

text \<open>The answers of \<open>configuration.Configuration\<close>.\<close>

record Configuration =
  GenerateCertificates :: bool
  TLSSecretName :: string
  ValidatingWebhookConfigurationName :: string
  MutatingWebhookConfigurationName :: string
  TenantCRDName :: string

record Reconciler =
  ReconcilerNamespace :: string
  ReconcilerConfiguration :: Configuration

text \<open>What the process reads from its host during one pass: \<open>os.Hostname()\<close>,
  \<open>os.Getenv("NAMESPACE")\<close>, the readings of \<open>time.Now()\<close> at each of its call sites (when
  issuing, per annotated pod, and when rescheduling), and the \<open>RFC3339Nano\<close> layout of a
  time.\<close>

record host =
  Hostname :: string
  GetenvNAMESPACE :: string
  nowIssue :: time
  nowPod :: "NamespacedName \<Rightarrow> time"
  nowRequeue :: time
  FormatRFC3339Nano :: "time \<Rightarrow> string"

text \<open>Reading a key of a possibly nil byte map: the zero value (nil) when absent.\<close>

definition dataAt :: "(string \<rightharpoonup> bytes) \<Rightarrow> string \<Rightarrow> bytes" where
  "dataAt d k = (case d k of None \<Rightarrow> [] | Some v \<Rightarrow> v)"

subsection \<open>The rotation decision\<close>

definition shouldUpdateCertificate ::
  "('cert, 'key, 'ca) cert_pkg \<Rightarrow> Reconciler \<Rightarrow> Secret \<Rightarrow> bool" where
  "shouldUpdateCertificate cp r secret =
     (if \<not> GenerateCertificates (ReconcilerConfiguration r) then False
      else (case Data secret ServiceAccountRootCAKey of
              None \<Rightarrow> True
            | Some _ \<Rightarrow>
                (case GetCertificateWithPrivateKeyFromBytes cp
                        (dataAt (Data secret) TLSCertKey) (dataAt (Data secret) TLSPrivateKeyKey) of
                   Inl _ \<Rightarrow> True
                 | Inr (certificate, key) \<Rightarrow>
                     (case ValidateCertificate cp certificate key certificateExpirationThreshold of
                        Some _ \<Rightarrow> True
                      | None \<Rightarrow> False))))"

subsection \<open>Propagation of the CA bundle\<close>

text \<open>The body of the loop over the webhooks: only an entry with a service reference gets
  the bundle.\<close>

definition setCABundle :: "bytes \<Rightarrow> Webhook \<Rightarrow> Webhook" where
  "setCABundle caBundle w =
     (if Service (ClientConfig w) \<noteq> None
      then w\<lparr>ClientConfig := (ClientConfig w)\<lparr>CABundle := caBundle\<rparr>\<rparr>
      else w)"

definition updateValidatingWebhookConfiguration ::
  "Reconciler \<Rightarrow> bytes \<Rightarrow> store \<Rightarrow> error option \<times> store" where
  "updateValidatingWebhookConfiguration r caBundle =
     RetryOnConflict DefaultBackoff (\<lambda>s.
       case clientGet ConfigMeta (validatingWebhookConfigurations s)
              ([], ValidatingWebhookConfigurationName (ReconcilerConfiguration r)) of
         Inl err \<Rightarrow> (Some err, s)
       | Inr vw \<Rightarrow>
           (case clientUpdate ConfigMeta (validatingWebhookConfigurations s)
                   (vw\<lparr>Webhooks := map (setCABundle caBundle) (Webhooks vw)\<rparr>) of
              Inl err \<Rightarrow> (Some err, s)
            | Inr xs \<Rightarrow> (None, s\<lparr>validatingWebhookConfigurations := xs\<rparr>)))"

definition updateMutatingWebhookConfiguration ::
  "Reconciler \<Rightarrow> bytes \<Rightarrow> store \<Rightarrow> error option \<times> store" where
  "updateMutatingWebhookConfiguration r caBundle =
     RetryOnConflict DefaultBackoff (\<lambda>s.
       case clientGet ConfigMeta (mutatingWebhookConfigurations s)
              ([], MutatingWebhookConfigurationName (ReconcilerConfiguration r)) of
         Inl err \<Rightarrow> (Some err, s)
       | Inr mw \<Rightarrow>
           (case clientUpdate ConfigMeta (mutatingWebhookConfigurations s)
                   (mw\<lparr>Webhooks := map (setCABundle caBundle) (Webhooks mw)\<rparr>) of
              Inl err \<Rightarrow> (Some err, s)
            | Inr xs \<Rightarrow> (None, s\<lparr>mutatingWebhookConfigurations := xs\<rparr>)))"

text \<open>The conversion block that the mutation of \<open>updateCustomResourceDefinition\<close> assigns.\<close>

definition webhookConversion :: "Reconciler \<Rightarrow> bytes \<Rightarrow> CustomResourceConversion" where
  "webhookConversion r caBundle =
     \<lparr>Strategy = ''Webhook'',
      ConversionWebhook = Some
        \<lparr>ConversionClientConfig = Some
           \<lparr>URL = None,
            Service = Some
              \<lparr>SvcNamespace = ReconcilerNamespace r,
               SvcName = ''capsule-webhook-service'',
               Path = Some ''/convert'',
               Port = Some 443\<rparr>,
            CABundle = caBundle\<rparr>,
         ConversionReviewVersions = [''v1alpha1'', ''v1beta1'']\<rparr>\<rparr>"

definition updateCustomResourceDefinition ::
  "Reconciler \<Rightarrow> bytes \<Rightarrow> store \<Rightarrow> error option \<times> store" where
  "updateCustomResourceDefinition r caBundle =
     RetryOnConflict DefaultBackoff (\<lambda>s.
       case clientGet CRDMeta (customResourceDefinitions s) ([], ''tenants.capsule.clastix.io'') of
         Inl err \<Rightarrow> (Some err, s)
       | Inr crd \<Rightarrow>
           (case CreateOrUpdate CRDMeta (customResourceDefinitions s) crd
                   (\<lambda>c. c\<lparr>Conversion := Some (webhookConversion r caBundle)\<rparr>) of
              Inl err \<Rightarrow> (Some err, s)
            | Inr xs \<Rightarrow> (None, s\<lparr>customResourceDefinitions := xs\<rparr>)))"

subsection \<open>Notification of the operator pods\<close>

text \<open>Writing a key of the annotations, after a nil map has been replaced by an empty one.\<close>

definition setAnnotation :: "string \<Rightarrow> string \<Rightarrow> Pod \<Rightarrow> Pod" where
  "setAnnotation k v p =
     p\<lparr>PodMeta := (PodMeta p)\<lparr>Annotations :=
         Some ((case Annotations (PodMeta p) of None \<Rightarrow> Map.empty | Some a \<Rightarrow> a)(k \<mapsto> v))\<rparr>\<rparr>"

definition updateOperatorPod :: "host \<Rightarrow> Pod \<Rightarrow> store \<Rightarrow> error option \<times> store" where
  "updateOperatorPod h pod =
     RetryOnConflict DefaultRetry (\<lambda>s.
       case (case clientGet PodMeta (pods s) (ObjectKey (PodMeta pod)) of
               Inl err \<Rightarrow> (if \<not> IsNotFound err then Inl err else Inr emptyPod)
             | Inr p \<Rightarrow> Inr p) of
         Inl err \<Rightarrow> (Some err, s)
       | Inr p \<Rightarrow>
           (case clientUpdate PodMeta (pods s)
                   (setAnnotation PodUpdateAnnotationName
                      (FormatRFC3339Nano h (nowPod h (ObjectKey (PodMeta pod)))) p) of
              Inl err \<Rightarrow> (Some err, s)
            | Inr xs \<Rightarrow> (None, s\<lparr>pods := xs\<rparr>)))"

text \<open>\<open>client.MatchingLabels\<close>: every pair of the selector is a label of the object.\<close>

definition MatchingLabels :: "(string \<times> string) list \<Rightarrow> Pod \<Rightarrow> bool" where
  "MatchingLabels sel p = list_all (\<lambda>(k, v). map_of (Labels (PodMeta p)) k = Some v) sel"

definition getOperatorPods :: "host \<Rightarrow> store \<Rightarrow> error + Pod list" where
  "getOperatorPods h s =
     (case clientGet PodMeta (pods s) (GetenvNAMESPACE h, Hostname h) of
        Inl err \<Rightarrow> Inl err
      | Inr leaderPod \<Rightarrow> Inr (filter (MatchingLabels (Labels (PodMeta leaderPod))) (pods s)))"

subsection \<open>The reconciliation pass\<close>

text \<open>An \<open>errgroup.Group\<close> made with \<open>new\<close>: every task that was started runs to its end,
  and \<open>Wait\<close> returns the first error.  The tasks of a pass write different objects, so
  they are run here one after the other in the order they were started.\<close>

fun groupWait ::
  "(store \<Rightarrow> error option \<times> store) list \<Rightarrow> store \<Rightarrow> error option \<times> store" where
  "groupWait [] s = (None, s)"
| "groupWait (t # ts) s =
     (case t s of (e, s') \<Rightarrow>
        (case groupWait ts s' of (e', s'') \<Rightarrow>
           ((case e of None \<Rightarrow> e' | Some x \<Rightarrow> Some x), s'')))"

record Result =
  Requeue :: bool
  RequeueAfter :: duration

definition emptyResult :: Result where
  "emptyResult = \<lparr>Requeue = False, RequeueAfter = 0\<rparr>"

text \<open>The options of the leaf certificate.\<close>

definition leafCertOpts :: "host \<Rightarrow> Reconciler \<Rightarrow> CertOpts" where
  "leafCertOpts h r =
     NewCertOpts (Add (nowIssue h) certificateValidity)
       [''capsule-webhook-service.'' @ ReconcilerNamespace r @ ''.svc'']"

text \<open>The body of the branch taken when the certificate has to be renewed; it returns the
  secret as the pass holds it afterwards.\<close>

definition renewCertificate ::
  "('cert, 'key, 'ca) cert_pkg \<Rightarrow> host \<Rightarrow> Reconciler \<Rightarrow> Secret \<Rightarrow> store
     \<Rightarrow> (error + Secret) \<times> store" where
  "renewCertificate cp h r certSecret s =
     (case GenerateCertificateAuthority cp of
        Inl err \<Rightarrow> (Inl err, s)
      | Inr ca \<Rightarrow>
          (case GenerateCertificate cp ca (leafCertOpts h r) of
             Inl err \<Rightarrow> (Inl err, s)
           | Inr (crt, key) \<Rightarrow>
               (case fst (CACertificatePem cp ca) of
                  None \<Rightarrow> (Inl NilPointerDereference, s)
                | Some caCrt \<Rightarrow>
                    (let certSecret' = certSecret\<lparr>Data :=
                           [TLSCertKey \<mapsto> crt, TLSPrivateKeyKey \<mapsto> key,
                            ServiceAccountRootCAKey \<mapsto> caCrt]\<rparr>;
                         t = \<lparr>SecretMeta = SecretMeta certSecret, Data = Map.empty, SecretType = []\<rparr>
                     in (case CreateOrUpdate SecretMeta (secrets s) t
                                (\<lambda>t. t\<lparr>Data := Data certSecret'\<rparr>) of
                           Inl err \<Rightarrow> (Inl err, s)
                         | Inr xs \<Rightarrow> (Inr certSecret', s\<lparr>secrets := xs\<rparr>))))))"

text \<open>The duration after which the pass asks to run again.\<close>

definition requeueAfter :: "time \<Rightarrow> time \<Rightarrow> duration" where
  "requeueAfter notAfter now =
     (Unix notAfter - Unix now) * Second - certificateReconciliationThreshold"

definition Reconcile ::
  "('cert, 'key, 'ca) cert_pkg \<Rightarrow> host \<Rightarrow> Reconciler \<Rightarrow> NamespacedName \<Rightarrow> store
     \<Rightarrow> (error + Result) \<times> store" where
  "Reconcile cp h r request s =
     (case clientGet SecretMeta (secrets s) request of
        Inl err \<Rightarrow> (Inl err, s)
      | Inr stored \<Rightarrow>
          (case (if shouldUpdateCertificate cp r stored
                 then renewCertificate cp h r stored s
                 else (Inr stored, s)) of
             (Inl err, s1) \<Rightarrow> (Inl err, s1)
           | (Inr certSecret, s1) \<Rightarrow>
               (case Data certSecret ServiceAccountRootCAKey of
                  None \<Rightarrow>
                    (Inl (Errorf (''missing '' @ ServiceAccountRootCAKey @ '' field in ''
                            @ TLSSecretName (ReconcilerConfiguration r) @ '' secret'')), s1)
                | Some caBundle \<Rightarrow>
                    (case getOperatorPods h s1 of
                       Inl err \<Rightarrow> (Inl err, s1)
                     | Inr operatorPods \<Rightarrow>
                         (case groupWait
                                 ([updateMutatingWebhookConfiguration r caBundle,
                                   updateValidatingWebhookConfiguration r caBundle,
                                   updateCustomResourceDefinition r caBundle]
                                  @ map (updateOperatorPod h) operatorPods) s1 of
                            (Some err, s2) \<Rightarrow> (Inl err, s2)
                          | (None, s2) \<Rightarrow>
                              (if GenerateCertificates (ReconcilerConfiguration r)
                               then (case GetCertificateFromBytes cp
                                            (dataAt (Data certSecret) TLSCertKey) of
                                       Inl err \<Rightarrow> (Inl err, s2)
                                     | Inr certificate \<Rightarrow>
                                         (Inr \<lparr>Requeue = True,
                                               RequeueAfter =
                                                 requeueAfter (NotAfter cp certificate)
                                                   (nowRequeue h)\<rparr>, s2))
                               else (Inr emptyResult, s2)))))))"

section \<open>A sample cluster\<close>

text \<open>
  A small cluster on which the operations are run: the TLS secret, both webhook
  configurations (each with one entry for the internal service and one for an external
  URL), the tenant custom resource definition and one operator pod.  The certificate
  package of the sample parses every non-empty certificate into one that expires at the
  given time, accepts it, and issues fixed material.
\<close>

definition sampleReconciler :: "bool \<Rightarrow> Reconciler" where
  "sampleReconciler gen =
     \<lparr>ReconcilerNamespace = ''capsule-system'',
      ReconcilerConfiguration =
        \<lparr>GenerateCertificates = gen,
         TLSSecretName = ''capsule-tls'',
         ValidatingWebhookConfigurationName = ''capsule-validating-webhook-configuration'',
         MutatingWebhookConfigurationName = ''capsule-mutating-webhook-configuration'',
         TenantCRDName = ''tenants.capsule.clastix.io''\<rparr>\<rparr>"

definition sampleRequest :: NamespacedName where
  "sampleRequest = (''capsule-system'', ''capsule-tls'')"

definition sampleCertPkg :: "time \<Rightarrow> (time, unit, unit) cert_pkg" where
  "sampleCertPkg notAfter =
     \<lparr>GenerateCertificateAuthority = Inr (),
      GenerateCertificate = (\<lambda>ca opts. Inr ([11], [12])),
      CACertificatePem = (\<lambda>ca. (Some [13], None)),
      GetCertificateWithPrivateKeyFromBytes =
        (\<lambda>crt key. if crt = [] \<or> key = [] then Inl (CertError ''no PEM block'')
                    else Inr (notAfter, ())),
      GetCertificateFromBytes =
        (\<lambda>crt. if crt = [] then Inl (CertError ''no PEM block'') else Inr notAfter),
      ValidateCertificate = (\<lambda>certificate key threshold. None),
      NotAfter = (\<lambda>certificate. certificate)\<rparr>"

definition sampleHost :: "string \<Rightarrow> time \<Rightarrow> host" where
  "sampleHost name t =
     \<lparr>Hostname = name,
      GetenvNAMESPACE = ''capsule-system'',
      nowIssue = t,
      nowPod = (\<lambda>k. t),
      nowRequeue = t,
      FormatRFC3339Nano =
        (\<lambda>t. if t = 1700000000000000000 then ''2023-11-14T22:13:20Z''
              else ''2023-11-14T22:13:21Z'')\<rparr>"

definition sampleSecret :: "(string \<rightharpoonup> bytes) \<Rightarrow> Secret" where
  "sampleSecret d =
     \<lparr>SecretMeta = \<lparr>Namespace = ''capsule-system'', Name = ''capsule-tls'', Labels = [],
                     Annotations = None\<rparr>,
      Data = d,
      SecretType = ''kubernetes.io/tls''\<rparr>"

definition sampleData :: "string \<rightharpoonup> bytes" where
  "sampleData = [''tls.crt'' \<mapsto> [1], ''tls.key'' \<mapsto> [2], ''ca.crt'' \<mapsto> [3]]"

definition sampleWebhooks :: "bytes \<Rightarrow> Webhook list" where
  "sampleWebhooks bundle =
     [\<lparr>WebhookName = ''namespaces.capsule.clastix.io'',
       ClientConfig =
         \<lparr>URL = None,
          Service = Some \<lparr>SvcNamespace = ''capsule-system'', SvcName = ''capsule-webhook-service'',
                          Path = Some ''/namespaces'', Port = None\<rparr>,
          CABundle = bundle\<rparr>,
       FailurePolicy = Some ''Fail'', SideEffects = Some ''None'',
       AdmissionReviewVersions = [''v1'']\<rparr>,
      \<lparr>WebhookName = ''audit.example.com'',
       ClientConfig = \<lparr>URL = Some ''https://audit.example.com/hook'', Service = None, CABundle = [9]\<rparr>,
       FailurePolicy = Some ''Ignore'', SideEffects = Some ''None'',
       AdmissionReviewVersions = [''v1'']\<rparr>]"

definition sampleConfiguration :: "string \<Rightarrow> bytes \<Rightarrow> WebhookConfiguration" where
  "sampleConfiguration name bundle =
     \<lparr>ConfigMeta = \<lparr>Namespace = [], Name = name, Labels = [], Annotations = None\<rparr>,
      Webhooks = sampleWebhooks bundle\<rparr>"

definition sampleCRD :: "CustomResourceConversion option \<Rightarrow> CustomResourceDefinition" where
  "sampleCRD conv =
     \<lparr>CRDMeta = \<lparr>Namespace = [], Name = ''tenants.capsule.clastix.io'', Labels = [],
                  Annotations = None\<rparr>,
      Group = ''capsule.clastix.io'', Conversion = conv\<rparr>"

definition samplePod :: "(string \<rightharpoonup> string) option \<Rightarrow> Pod" where
  "samplePod ann =
     \<lparr>PodMeta = \<lparr>Namespace = ''capsule-system'', Name = ''capsule-controller-manager-0'',
                  Labels = [(''control-plane'', ''controller-manager'')], Annotations = ann\<rparr>,
      NodeName = ''node-1''\<rparr>"

definition sampleCluster ::
  "(string \<rightharpoonup> bytes) \<Rightarrow> bytes \<Rightarrow> CustomResourceConversion option \<Rightarrow> (string \<rightharpoonup> string) option
     \<Rightarrow> store" where
  "sampleCluster d bundle conv ann =
     \<lparr>secrets = [sampleSecret d],
      validatingWebhookConfigurations =
        [sampleConfiguration ''capsule-validating-webhook-configuration'' bundle],
      mutatingWebhookConfigurations =
        [sampleConfiguration ''capsule-mutating-webhook-configuration'' bundle],
      customResourceDefinitions = [sampleCRD conv],
      pods = [samplePod ann]\<rparr>"

text \<open>A cluster whose validating webhook configuration has one entry, for a service that
  is not the one of the operator.\<close>

definition foreignWebhook :: "bytes \<Rightarrow> Webhook" where
  "foreignWebhook bundle =
     \<lparr>WebhookName = ''policy.example.org'',
      ClientConfig =
        \<lparr>URL = None,
         Service = Some \<lparr>SvcNamespace = ''other-ns'', SvcName = ''other-svc'',
                         Path = None, Port = None\<rparr>,
         CABundle = bundle\<rparr>,
      FailurePolicy = Some ''Fail'', SideEffects = Some ''None'',
      AdmissionReviewVersions = [''v1'']\<rparr>"

definition foreignCluster :: "bytes \<Rightarrow> store" where
  "foreignCluster bundle =
     (sampleCluster sampleData [] None None)
       \<lparr>validatingWebhookConfigurations :=
          [\<lparr>ConfigMeta = \<lparr>Namespace = [], Name = ''capsule-validating-webhook-configuration'',
                           Labels = [], Annotations = None\<rparr>,
            Webhooks = [foreignWebhook bundle]\<rparr>]\<rparr>"

section \<open>Properties\<close>

subsection \<open>The client\<close>

lemma clientGet_Inr_iff:
  "clientGet meta xs k = Inr x
     \<longleftrightarrow> snd k \<noteq> [] \<and> find (\<lambda>x. ObjectKey (meta x) = k) xs = Some x"
  by (auto simp: clientGet_def split: option.splits)

lemma clientUpdate_Inr_iff:
  "clientUpdate meta xs obj = Inr ys
     \<longleftrightarrow> Name (meta obj) \<noteq> []
         \<and> find (\<lambda>x. ObjectKey (meta x) = ObjectKey (meta obj)) xs \<noteq> None
         \<and> ys = map (\<lambda>x. if ObjectKey (meta x) = ObjectKey (meta obj) then obj else x) xs"
  by (auto simp: clientUpdate_def split: option.splits)

lemma clientGet_key: "clientGet meta xs k = Inr x \<Longrightarrow> ObjectKey (meta x) = k"
  by (auto simp: clientGet_Inr_iff dest: find_Some_iff[THEN iffD1])

lemma clientGet_name: "clientGet meta xs k = Inr x \<Longrightarrow> Name (meta x) \<noteq> []"
  using clientGet_key[of meta xs k x] by (auto simp: clientGet_Inr_iff ObjectKey_def)

lemma clientGet_mem: "clientGet meta xs k = Inr x \<Longrightarrow> x \<in> set xs"
  by (auto simp: clientGet_Inr_iff find_Some_iff)

lemma clientGet_error: "clientGet meta xs k = Inl e \<Longrightarrow> e = NotFound"
  by (auto simp: clientGet_def split: option.splits if_splits)

lemma find_replace:
  "P y \<Longrightarrow> find P (map (\<lambda>x. if P x then y else x) xs)
     = (case find P xs of None \<Rightarrow> None | Some _ \<Rightarrow> Some y)"
  by (induction xs) auto

lemma find_replace_other:
  "(\<And>x. P x \<Longrightarrow> \<not> Q x) \<Longrightarrow> \<not> Q y \<Longrightarrow> find Q (map (\<lambda>x. if P x then y else x) xs) = find Q xs"
  by (induction xs) auto

lemma clientUpdate_get:
  "clientUpdate meta xs obj = Inr ys \<Longrightarrow> clientGet meta ys (ObjectKey (meta obj)) = Inr obj"
  unfolding clientUpdate_Inr_iff clientGet_Inr_iff
  by (auto simp: ObjectKey_def
        find_replace[where P="\<lambda>x. (Namespace (meta x), Name (meta x)) = (Namespace (meta obj), Name (meta obj))", simplified])

lemma clientUpdate_get_other:
  "clientUpdate meta xs obj = Inr ys \<Longrightarrow> k \<noteq> ObjectKey (meta obj)
     \<Longrightarrow> clientGet meta ys k = clientGet meta xs k"
  unfolding clientUpdate_Inr_iff clientGet_def
  by (auto split: option.splits
        simp: find_replace_other[where P="\<lambda>x. ObjectKey (meta x) = ObjectKey (meta obj)"])

lemma clientUpdate_error: "clientUpdate meta xs obj = Inl e \<Longrightarrow> \<not> IsConflict e"
  by (auto simp: clientUpdate_def IsConflict_def split: option.splits if_splits)

text \<open>A function that never fails with a conflict runs once.\<close>

lemma RetryOnConflict_once:
  "(\<And>e s'. fn s = (Some e, s') \<Longrightarrow> \<not> IsConflict e) \<Longrightarrow> RetryOnConflict (Suc n) fn s = fn s"
  by (auto split: prod.splits option.splits)


lemma updateValidating_unfold:
  "updateValidatingWebhookConfiguration r caBundle s =
     (case clientGet ConfigMeta (validatingWebhookConfigurations s)
              ([], ValidatingWebhookConfigurationName (ReconcilerConfiguration r)) of
         Inl err \<Rightarrow> (Some err, s)
       | Inr vw \<Rightarrow>
           (case clientUpdate ConfigMeta (validatingWebhookConfigurations s)
                   (vw\<lparr>Webhooks := map (setCABundle caBundle) (Webhooks vw)\<rparr>) of
              Inl err \<Rightarrow> (Some err, s)
            | Inr xs \<Rightarrow> (None, s\<lparr>validatingWebhookConfigurations := xs\<rparr>)))"
  unfolding updateValidatingWebhookConfiguration_def DefaultBackoff_def eval_nat_numeral
  by (rule RetryOnConflict_once)
     (auto split: sum.splits simp: IsConflict_def dest: clientGet_error clientUpdate_error)

lemma updateMutating_unfold:
  "updateMutatingWebhookConfiguration r caBundle s =
     (case clientGet ConfigMeta (mutatingWebhookConfigurations s)
              ([], MutatingWebhookConfigurationName (ReconcilerConfiguration r)) of
         Inl err \<Rightarrow> (Some err, s)
       | Inr mw \<Rightarrow>
           (case clientUpdate ConfigMeta (mutatingWebhookConfigurations s)
                   (mw\<lparr>Webhooks := map (setCABundle caBundle) (Webhooks mw)\<rparr>) of
              Inl err \<Rightarrow> (Some err, s)
            | Inr xs \<Rightarrow> (None, s\<lparr>mutatingWebhookConfigurations := xs\<rparr>)))"
  unfolding updateMutatingWebhookConfiguration_def DefaultBackoff_def eval_nat_numeral
  by (rule RetryOnConflict_once)
     (auto split: sum.splits simp: IsConflict_def dest: clientGet_error clientUpdate_error)

lemma CreateOrUpdate_error: "CreateOrUpdate meta xs obj f = Inl e \<Longrightarrow> \<not> IsConflict e"
  by (auto simp: CreateOrUpdate_def IsConflict_def split: sum.splits if_splits
        dest: clientUpdate_error clientGet_error)

lemma updateCRD_unfold:
  "updateCustomResourceDefinition r caBundle s =
     (case clientGet CRDMeta (customResourceDefinitions s) ([], ''tenants.capsule.clastix.io'') of
         Inl err \<Rightarrow> (Some err, s)
       | Inr crd \<Rightarrow>
           (case CreateOrUpdate CRDMeta (customResourceDefinitions s) crd
                   (\<lambda>c. c\<lparr>Conversion := Some (webhookConversion r caBundle)\<rparr>) of
              Inl err \<Rightarrow> (Some err, s)
            | Inr xs \<Rightarrow> (None, s\<lparr>customResourceDefinitions := xs\<rparr>)))"
  unfolding updateCustomResourceDefinition_def DefaultBackoff_def eval_nat_numeral
  by (rule RetryOnConflict_once)
     (auto split: sum.splits simp: IsConflict_def dest: clientGet_error CreateOrUpdate_error)

lemma updateOperatorPod_unfold:
  "updateOperatorPod h pod s =
     (case (case clientGet PodMeta (pods s) (ObjectKey (PodMeta pod)) of
               Inl err \<Rightarrow> (if \<not> IsNotFound err then Inl err else Inr emptyPod)
             | Inr p \<Rightarrow> Inr p) of
         Inl err \<Rightarrow> (Some err, s)
       | Inr p \<Rightarrow>
           (case clientUpdate PodMeta (pods s)
                   (setAnnotation PodUpdateAnnotationName
                      (FormatRFC3339Nano h (nowPod h (ObjectKey (PodMeta pod)))) p) of
              Inl err \<Rightarrow> (Some err, s)
            | Inr xs \<Rightarrow> (None, s\<lparr>pods := xs\<rparr>)))"
  unfolding updateOperatorPod_def DefaultRetry_def eval_nat_numeral
  by (rule RetryOnConflict_once)
     (auto split: sum.splits if_splits simp: IsConflict_def IsNotFound_def
        dest: clientGet_error clientUpdate_error)



lemma CreateOrUpdate_found:
  assumes get: "clientGet meta xs (ObjectKey (meta obj)) = Inr existing"
      and cu: "CreateOrUpdate meta xs obj f = Inr ys"
      and key: "meta (f existing) = meta existing"
  shows "clientGet meta ys (ObjectKey (meta obj)) = Inr (f existing)"
    and "\<And>k. k \<noteq> ObjectKey (meta obj) \<Longrightarrow> clientGet meta ys k = clientGet meta xs k"
proof -
  have k: "ObjectKey (meta existing) = ObjectKey (meta obj)"
    using get by (rule clientGet_key)
  show "clientGet meta ys (ObjectKey (meta obj)) = Inr (f existing)"
  proof (cases "f existing = existing")
    case True
    with get cu show ?thesis by (simp add: CreateOrUpdate_def)
  next
    case False
    with get cu have "clientUpdate meta xs (f existing) = Inr ys"
      by (simp add: CreateOrUpdate_def)
    from clientUpdate_get[OF this] show ?thesis by (simp add: key k)
  qed
  fix k assume ne: "k \<noteq> ObjectKey (meta obj)"
  show "clientGet meta ys k = clientGet meta xs k"
  proof (cases "f existing = existing")
    case True
    with get cu show ?thesis by (simp add: CreateOrUpdate_def)
  next
    case False
    with get cu have "clientUpdate meta xs (f existing) = Inr ys"
      by (simp add: CreateOrUpdate_def)
    from clientUpdate_get_other[OF this, of k] ne show ?thesis by (simp add: key k)
  qed
qed










lemma clientUpdate_keys:
  "clientUpdate meta xs obj = Inr ys
     \<Longrightarrow> map (\<lambda>x. ObjectKey (meta x)) ys = map (\<lambda>x. ObjectKey (meta x)) xs"
  by (auto simp: clientUpdate_Inr_iff)

lemma find_found_iff:
  "find (\<lambda>x. f x = k) xs \<noteq> None \<longleftrightarrow> k \<in> set (map f xs)"
  by (induction xs) auto

lemma clientGet_found_iff:
  "(\<exists>x. clientGet meta xs k = Inr x)
     \<longleftrightarrow> snd k \<noteq> [] \<and> k \<in> set (map (\<lambda>x. ObjectKey (meta x)) xs)"
  using find_found_iff[of "\<lambda>x. ObjectKey (meta x)" k xs]
  by (auto simp: clientGet_Inr_iff)

lemma clientUpdate_found_iff:
  "(\<exists>ys. clientUpdate meta xs obj = Inr ys)
     \<longleftrightarrow> Name (meta obj) \<noteq> []
         \<and> ObjectKey (meta obj) \<in> set (map (\<lambda>x. ObjectKey (meta x)) xs)"
  using find_found_iff[of "\<lambda>x. ObjectKey (meta x)" "ObjectKey (meta obj)" xs]
  by (auto simp: clientUpdate_Inr_iff)

text \<open>An object that was read can be written back with its metadata.\<close>

lemma clientUpdate_after_get:
  assumes "clientGet meta xs k = Inr x" and "ObjectKey (meta y) = ObjectKey (meta x)"
  shows "\<exists>ys. clientUpdate meta xs y = Inr ys"
proof -
  have "ObjectKey (meta x) = k" using assms(1) by (rule clientGet_key)
  moreover have "Name (meta x) \<noteq> []" using assms(1) by (rule clientGet_name)
  moreover have "k \<in> set (map (\<lambda>x. ObjectKey (meta x)) xs)"
    using clientGet_found_iff[of meta xs k] assms(1) by blast
  ultimately show ?thesis
    using clientUpdate_found_iff[of meta xs y] assms(2) by (auto simp: ObjectKey_def)
qed

subsection \<open>What each task leaves alone\<close>

lemma updateValidating_frame:
  "updateValidatingWebhookConfiguration r b s = (e, s')
     \<Longrightarrow> secrets s' = secrets s
       \<and> mutatingWebhookConfigurations s' = mutatingWebhookConfigurations s
       \<and> customResourceDefinitions s' = customResourceDefinitions s
       \<and> pods s' = pods s"
  unfolding updateValidating_unfold by (auto split: sum.splits)

lemma updateMutating_frame:
  "updateMutatingWebhookConfiguration r b s = (e, s')
     \<Longrightarrow> secrets s' = secrets s
       \<and> validatingWebhookConfigurations s' = validatingWebhookConfigurations s
       \<and> customResourceDefinitions s' = customResourceDefinitions s
       \<and> pods s' = pods s"
  unfolding updateMutating_unfold by (auto split: sum.splits)

lemma updateCRD_frame:
  "updateCustomResourceDefinition r b s = (e, s')
     \<Longrightarrow> secrets s' = secrets s
       \<and> validatingWebhookConfigurations s' = validatingWebhookConfigurations s
       \<and> mutatingWebhookConfigurations s' = mutatingWebhookConfigurations s
       \<and> pods s' = pods s"
  unfolding updateCRD_unfold by (auto split: sum.splits)

lemma updateOperatorPod_frame:
  "updateOperatorPod h pod s = (e, s')
     \<Longrightarrow> secrets s' = secrets s
       \<and> validatingWebhookConfigurations s' = validatingWebhookConfigurations s
       \<and> mutatingWebhookConfigurations s' = mutatingWebhookConfigurations s
       \<and> customResourceDefinitions s' = customResourceDefinitions s
       \<and> map (\<lambda>x. ObjectKey (PodMeta x)) (pods s') = map (\<lambda>x. ObjectKey (PodMeta x)) (pods s)"
  unfolding updateOperatorPod_unfold
  by (auto split: sum.splits if_splits dest: clientUpdate_keys)

lemma setAnnotation_key [simp]: "ObjectKey (PodMeta (setAnnotation k v p)) = ObjectKey (PodMeta p)"
  by (simp add: setAnnotation_def ObjectKey_def)

lemma setAnnotation_meta [simp]:
  "Namespace (PodMeta (setAnnotation k v p)) = Namespace (PodMeta p)"
  "Name (PodMeta (setAnnotation k v p)) = Name (PodMeta p)"
  "Labels (PodMeta (setAnnotation k v p)) = Labels (PodMeta p)"
  "NodeName (setAnnotation k v p) = NodeName p"
  by (simp_all add: setAnnotation_def)

lemma setAnnotation_idem [simp]: "setAnnotation k v (setAnnotation k v p) = setAnnotation k v p"
  by (simp add: setAnnotation_def)


text \<open>When the pod is gone, the task fails with the refusal of the empty pod.\<close>

lemma updateOperatorPod_gone:
  assumes "clientGet PodMeta (pods s) (ObjectKey (PodMeta pod)) = Inl e"
  shows "updateOperatorPod h pod s = (Some Invalid, s)"
proof -
  from assms have "e = NotFound" by (rule clientGet_error)
  with assms show ?thesis
    unfolding updateOperatorPod_unfold
    by (simp add: IsNotFound_def clientUpdate_def emptyPod_def emptyMeta_def setAnnotation_def)
qed




subsection \<open>The group of tasks\<close>


lemma groupWait_pods_frame:
  "groupWait (map (updateOperatorPod h) ps) s = (e, s')
     \<Longrightarrow> secrets s' = secrets s
       \<and> validatingWebhookConfigurations s' = validatingWebhookConfigurations s
       \<and> mutatingWebhookConfigurations s' = mutatingWebhookConfigurations s
       \<and> customResourceDefinitions s' = customResourceDefinitions s
       \<and> map (\<lambda>x. ObjectKey (PodMeta x)) (pods s') = map (\<lambda>x. ObjectKey (PodMeta x)) (pods s)"
proof (induction ps arbitrary: s e s')
  case Nil
  then show ?case by simp
next
  case (Cons p ps)
  obtain e1 s1 where t: "updateOperatorPod h p s = (e1, s1)" by (cases "updateOperatorPod h p s")
  obtain e2 s2 where g: "groupWait (map (updateOperatorPod h) ps) s1 = (e2, s2)"
    by (cases "groupWait (map (updateOperatorPod h) ps) s1")
  from Cons.prems t g have "s' = s2" by (simp split: option.splits)
  with Cons.IH[OF g] updateOperatorPod_frame[OF t] show ?case by simp
qed





subsection \<open>Renewal\<close>

lemma renewCertificate_frame:
  "renewCertificate cp h r sec s = (res, s')
     \<Longrightarrow> validatingWebhookConfigurations s' = validatingWebhookConfigurations s
       \<and> mutatingWebhookConfigurations s' = mutatingWebhookConfigurations s
       \<and> customResourceDefinitions s' = customResourceDefinitions s
       \<and> pods s' = pods s"
  unfolding renewCertificate_def
  by (auto split: sum.splits option.splits prod.splits simp: Let_def)

lemma renewCertificate_failure:
  "renewCertificate cp h r sec s = (Inl e, s') \<Longrightarrow> s' = s"
  unfolding renewCertificate_def
  by (auto split: sum.splits option.splits prod.splits simp: Let_def)

lemma renewCertificate_success:
  assumes get: "clientGet SecretMeta (secrets s) request = Inr stored"
      and ca: "GenerateCertificateAuthority cp = Inr ca"
      and leaf: "GenerateCertificate cp ca (leafCertOpts h r) = Inr (crt, key)"
      and pem: "fst (CACertificatePem cp ca) = Some caCrt"
  shows "\<exists>s'. renewCertificate cp h r stored s =
            (Inr (stored\<lparr>Data := [TLSCertKey \<mapsto> crt, TLSPrivateKeyKey \<mapsto> key,
                                   ServiceAccountRootCAKey \<mapsto> caCrt]\<rparr>), s')
          \<and> clientGet SecretMeta (secrets s') request =
               Inr (stored\<lparr>Data := [TLSCertKey \<mapsto> crt, TLSPrivateKeyKey \<mapsto> key,
                                     ServiceAccountRootCAKey \<mapsto> caCrt]\<rparr>)
          \<and> (\<forall>k. k \<noteq> request \<longrightarrow> clientGet SecretMeta (secrets s') k = clientGet SecretMeta (secrets s) k)"
proof -
  let ?d = "[TLSCertKey \<mapsto> crt, TLSPrivateKeyKey \<mapsto> key, ServiceAccountRootCAKey \<mapsto> caCrt]"
  let ?t = "\<lparr>SecretMeta = SecretMeta stored, Data = Map.empty, SecretType = []\<rparr>"
  let ?f = "\<lambda>t::Secret. t\<lparr>Data := ?d\<rparr>"
  have k: "ObjectKey (SecretMeta stored) = request" using get by (rule clientGet_key)
  have get': "clientGet SecretMeta (secrets s) (ObjectKey (SecretMeta ?t)) = Inr stored"
    using get k by simp
  have "\<exists>ys. clientUpdate SecretMeta (secrets s) (?f stored) = Inr ys"
    by (rule clientUpdate_after_get[OF get]) simp
  then obtain ys where cu: "CreateOrUpdate SecretMeta (secrets s) ?t ?f = Inr ys"
    using get' by (cases "?f stored = stored") (auto simp: CreateOrUpdate_def)
  have g1: "clientGet SecretMeta ys request = Inr (?f stored)"
    using CreateOrUpdate_found(1)[OF get' cu] k by simp
  have g2: "\<And>k. k \<noteq> request \<Longrightarrow> clientGet SecretMeta ys k = clientGet SecretMeta (secrets s) k"
    using CreateOrUpdate_found(2)[OF get' cu] k by simp
  show ?thesis
    unfolding renewCertificate_def using ca leaf pem cu g1 g2
    by (simp add: Let_def)
qed

lemma renewCertificate_Inr:
  assumes "renewCertificate cp h r stored s = (Inr certSecret, s')"
  shows "\<exists>ca crt key caCrt. GenerateCertificateAuthority cp = Inr ca
           \<and> GenerateCertificate cp ca (leafCertOpts h r) = Inr (crt, key)
           \<and> fst (CACertificatePem cp ca) = Some caCrt"
  using assms unfolding renewCertificate_def
  by (auto split: sum.splits option.splits prod.splits simp: Let_def)

subsection \<open>The pass\<close>

lemma getOperatorPods_pods:
  "pods s' = pods s \<Longrightarrow> getOperatorPods h s' = getOperatorPods h s"
  by (simp add: getOperatorPods_def cong: sum.case_cong)

lemma Reconcile_success:
  assumes "Reconcile cp h r request s = (Inr res, s2)"
  shows "\<exists>stored certSecret s1 caBundle operatorPods.
           clientGet SecretMeta (secrets s) request = Inr stored
         \<and> (if shouldUpdateCertificate cp r stored then renewCertificate cp h r stored s
             else (Inr stored, s)) = (Inr certSecret, s1)
         \<and> Data certSecret ServiceAccountRootCAKey = Some caBundle
         \<and> getOperatorPods h s1 = Inr operatorPods
         \<and> groupWait ([updateMutatingWebhookConfiguration r caBundle,
                        updateValidatingWebhookConfiguration r caBundle,
                        updateCustomResourceDefinition r caBundle]
                       @ map (updateOperatorPod h) operatorPods) s1 = (None, s2)
         \<and> (if GenerateCertificates (ReconcilerConfiguration r)
             then \<exists>certificate.
                    GetCertificateFromBytes cp (dataAt (Data certSecret) TLSCertKey) = Inr certificate
                  \<and> res = \<lparr>Requeue = True,
                           RequeueAfter = requeueAfter (NotAfter cp certificate) (nowRequeue h)\<rparr>
             else res = emptyResult)"
  using assms unfolding Reconcile_def
  by (auto split: sum.splits prod.splits option.splits if_splits simp del: groupWait.simps)


lemma group_frame:
  assumes "groupWait ([updateMutatingWebhookConfiguration r b,
                       updateValidatingWebhookConfiguration r b,
                       updateCustomResourceDefinition r b]
                      @ map (updateOperatorPod h) ps) s = (e, s')"
  shows "secrets s' = secrets s
       \<and> map (\<lambda>x. ObjectKey (PodMeta x)) (pods s') = map (\<lambda>x. ObjectKey (PodMeta x)) (pods s)"
proof -
  obtain e1 s1 where m: "updateMutatingWebhookConfiguration r b s = (e1, s1)"
    by (cases "updateMutatingWebhookConfiguration r b s")
  obtain e2 s2 where v: "updateValidatingWebhookConfiguration r b s1 = (e2, s2)"
    by (cases "updateValidatingWebhookConfiguration r b s1")
  obtain e3 s3 where c: "updateCustomResourceDefinition r b s2 = (e3, s3)"
    by (cases "updateCustomResourceDefinition r b s2")
  obtain e4 s4 where g: "groupWait (map (updateOperatorPod h) ps) s3 = (e4, s4)"
    by (cases "groupWait (map (updateOperatorPod h) ps) s3")
  from assms m v c g have "s' = s4" by (simp split: option.splits)
  with updateMutating_frame[OF m] updateValidating_frame[OF v] updateCRD_frame[OF c]
    groupWait_pods_frame[OF g]
  show ?thesis by simp
qed


text \<open>The secret that the pass holds after the decision is the one stored then.\<close>

lemma step_secret:
  assumes get: "clientGet SecretMeta (secrets s) request = Inr stored"
      and step: "(if shouldUpdateCertificate cp r stored then renewCertificate cp h r stored s
                  else (Inr stored, s)) = (Inr certSecret, s1)"
  shows "clientGet SecretMeta (secrets s1) request = Inr certSecret"
    and "\<And>k. k \<noteq> request \<Longrightarrow> clientGet SecretMeta (secrets s1) k = clientGet SecretMeta (secrets s) k"
    and "validatingWebhookConfigurations s1 = validatingWebhookConfigurations s"
    and "mutatingWebhookConfigurations s1 = mutatingWebhookConfigurations s"
    and "customResourceDefinitions s1 = customResourceDefinitions s"
    and "pods s1 = pods s"
proof -
  have all: "clientGet SecretMeta (secrets s1) request = Inr certSecret
     \<and> (\<forall>k. k \<noteq> request \<longrightarrow> clientGet SecretMeta (secrets s1) k = clientGet SecretMeta (secrets s) k)
     \<and> validatingWebhookConfigurations s1 = validatingWebhookConfigurations s
     \<and> mutatingWebhookConfigurations s1 = mutatingWebhookConfigurations s
     \<and> customResourceDefinitions s1 = customResourceDefinitions s
     \<and> pods s1 = pods s"
  proof (cases "shouldUpdateCertificate cp r stored")
    case False
    with step get show ?thesis by simp
  next
    case True
    with step have rn: "renewCertificate cp h r stored s = (Inr certSecret, s1)" by simp
    from renewCertificate_Inr[OF rn] obtain ca crt key caCrt where
      "GenerateCertificateAuthority cp = Inr ca"
      "GenerateCertificate cp ca (leafCertOpts h r) = Inr (crt, key)"
      "fst (CACertificatePem cp ca) = Some caCrt"
      by blast
    from renewCertificate_success[OF get this] rn renewCertificate_frame[OF rn]
    show ?thesis by auto
  qed
  then show "clientGet SecretMeta (secrets s1) request = Inr certSecret"
    and "\<And>k. k \<noteq> request \<Longrightarrow> clientGet SecretMeta (secrets s1) k = clientGet SecretMeta (secrets s) k"
    and "validatingWebhookConfigurations s1 = validatingWebhookConfigurations s"
    and "mutatingWebhookConfigurations s1 = mutatingWebhookConfigurations s"
    and "customResourceDefinitions s1 = customResourceDefinitions s"
    and "pods s1 = pods s"
    by blast+
qed

text \<open>Whatever the pass does after the decision step, it does not write secrets.\<close>

lemma Reconcile_after_step:
  assumes get: "clientGet SecretMeta (secrets s) request = Inr stored"
      and step: "(if shouldUpdateCertificate cp r stored then renewCertificate cp h r stored s
                  else (Inr stored, s)) = (res1, s1)"
  shows "secrets (snd (Reconcile cp h r request s)) = secrets s1"
proof (cases res1)
  case (Inl e)
  with get step show ?thesis by (simp add: Reconcile_def)
next
  case (Inr certSecret)
  show ?thesis
  proof (cases "Data certSecret ServiceAccountRootCAKey")
    case None
    with get step Inr show ?thesis by (simp add: Reconcile_def)
  next
    case (Some caBundle)
    show ?thesis
    proof (cases "getOperatorPods h s1")
      case (Inl e)
      with get step Inr Some show ?thesis by (simp add: Reconcile_def)
    next
      case ops: (Inr operatorPods)
      obtain e s2 where g: "groupWait ([updateMutatingWebhookConfiguration r caBundle,
                       updateValidatingWebhookConfiguration r caBundle,
                       updateCustomResourceDefinition r caBundle]
                      @ map (updateOperatorPod h) operatorPods) s1 = (e, s2)"
        by (cases "groupWait ([updateMutatingWebhookConfiguration r caBundle,
                       updateValidatingWebhookConfiguration r caBundle,
                       updateCustomResourceDefinition r caBundle]
                      @ map (updateOperatorPod h) operatorPods) s1")
      from group_frame[OF g] have "secrets s2 = secrets s1" by simp
      with get step Inr Some ops g show ?thesis
        by (simp add: Reconcile_def del: groupWait.simps split: option.splits sum.splits)
    qed
  qed
qed

subsection \<open>Further facts about the operations\<close>

lemma certificateValidity_sint: "sint certificateValidity = 15552000000000000"
  by (simp add: certificateValidity_def Hour_def Second_def)

lemma shouldUpdateCertificate_GenerateCertificate [simp]:
  "shouldUpdateCertificate (cp\<lparr>GenerateCertificate := g\<rparr>) r sec = shouldUpdateCertificate cp r sec"
  by (simp add: shouldUpdateCertificate_def split: option.splits sum.splits)

lemma CreateOrUpdate_succeeds:
  assumes get: "clientGet meta xs (ObjectKey (meta obj)) = Inr existing"
      and key: "meta (f existing) = meta existing"
  shows "\<exists>ys. CreateOrUpdate meta xs obj f = Inr ys"
proof -
  have "\<exists>ys. clientUpdate meta xs (f existing) = Inr ys"
    by (rule clientUpdate_after_get[OF get]) (simp add: key)
  then show ?thesis
    using get by (cases "f existing = existing") (auto simp: CreateOrUpdate_def)
qed

lemma webhooks_update_succeeds:
  assumes get: "clientGet ConfigMeta xs k = Inr vw"
  shows "\<exists>ys. clientUpdate ConfigMeta xs (vw\<lparr>Webhooks := map (setCABundle b) (Webhooks vw)\<rparr>) = Inr ys
          \<and> clientGet ConfigMeta ys k = Inr (vw\<lparr>Webhooks := map (setCABundle b) (Webhooks vw)\<rparr>)
          \<and> (\<forall>k'. k' \<noteq> k \<longrightarrow> clientGet ConfigMeta ys k' = clientGet ConfigMeta xs k')"
proof -
  let ?vw = "vw\<lparr>Webhooks := map (setCABundle b) (Webhooks vw)\<rparr>"
  have k: "ObjectKey (ConfigMeta vw) = k" using get by (rule clientGet_key)
  obtain ys where upd: "clientUpdate ConfigMeta xs ?vw = Inr ys"
    using clientUpdate_after_get[OF get, of ?vw] by auto
  from clientUpdate_get[OF upd] clientUpdate_get_other[OF upd] k upd
  show ?thesis by auto
qed

lemma setCABundle_cases:
  "(Service (ClientConfig w) = None \<longrightarrow> setCABundle b w = w)
   \<and> (Service (ClientConfig w) \<noteq> None
        \<longrightarrow> setCABundle b w = w\<lparr>ClientConfig := (ClientConfig w)\<lparr>CABundle := b\<rparr>\<rparr>)"
  by (simp add: setCABundle_def)

lemma requeueAfter_sint:
  assumes "- (2 ^ 63) \<le> (notAfter div 1000000000 - now div 1000000000) * 1000000000
                          - 4 * 24 * 3600 * 1000000000"
      and "(notAfter div 1000000000 - now div 1000000000) * 1000000000
             - 4 * 24 * 3600 * 1000000000 < 2 ^ 63"
  shows "sint (requeueAfter notAfter now)
           = (notAfter div 1000000000 - now div 1000000000) * 1000000000
               - 4 * 24 * 3600 * 1000000000"
proof -
  let ?d = "(notAfter div 1000000000 - now div 1000000000) * 1000000000
              - 4 * 24 * 3600 * 1000000000"
  have "requeueAfter notAfter now = (word_of_int ?d :: 64 word)"
    by (simp add: requeueAfter_def Unix_def Second_def certificateReconciliationThreshold_def
          Hour_def)
  then have "sint (requeueAfter notAfter now) = signed_take_bit 63 ?d"
    by (simp only: signed_of_int) simp
  also have "\<dots> = ?d"
    by (rule signed_take_bit_int_eq_self) (use assms in simp_all)
  finally show ?thesis .
qed



subsection \<open>Passes over the sample cluster\<close>

lemmas sample_defs = sampleReconciler_def sampleRequest_def sampleCertPkg_def sampleHost_def
  sampleWebhooks_def sampleCluster_def sampleSecret_def sampleData_def
  sampleConfiguration_def sampleCRD_def samplePod_def

lemmas model_defs = Reconcile_def shouldUpdateCertificate_def renewCertificate_def
  getOperatorPods_def updateMutating_unfold updateValidating_unfold updateCRD_unfold
  updateOperatorPod_unfold clientGet_def clientUpdate_def CreateOrUpdate_def ObjectKey_def
  dataAt_def MatchingLabels_def setCABundle_def setAnnotation_def webhookConversion_def
  requeueAfter_def Unix_def TLSCertKey_def TLSPrivateKeyKey_def ServiceAccountRootCAKey_def
  PodUpdateAnnotationName_def certificateExpirationThreshold_def
  certificateReconciliationThreshold_def Hour_def Second_def emptyResult_def IsNotFound_def
  leafCertOpts_def Add_def certificateValidity_def emptyPod_def emptyMeta_def

text \<open>A pass over the sample cluster whose bundles are stale, ten days before the
  certificate expires, and a second pass one second later.\<close>

lemma sample_pass:
  "Reconcile (sampleCertPkg 1700864000000000000)
     (sampleHost ''capsule-controller-manager-0'' 1700000000000000000)
     (sampleReconciler True) sampleRequest (sampleCluster sampleData [] None None)
   = (Inr \<lparr>Requeue = True, RequeueAfter = 518400000000000\<rparr>,
      sampleCluster sampleData [3] (Some (webhookConversion (sampleReconciler True) [3]))
        (Some [''capsule.clastix.io/updated'' \<mapsto> ''2023-11-14T22:13:20Z'']))"
  by (simp add: sample_defs model_defs)



subsection \<open>The rotation decision\<close>

text \<open>
  Claim C1. With certificate generation disabled in the configuration
  \<open>shouldUpdateCertificate\<close> is false whatever the secret holds.  With generation enabled
  it is true exactly when the secret has no \<open>ca.crt\<close> field, or the stored certificate
  and key do not parse, or the parsed pair fails the validation against the expiration
  threshold (three days); it is false otherwise.
\<close>

theorem shouldUpdateCertificate_decision:
  "(shouldUpdateCertificate cp r secret) =
     (GenerateCertificates (ReconcilerConfiguration r) \<and>
      (Data secret ServiceAccountRootCAKey = None
       \<or> (\<exists>e. GetCertificateWithPrivateKeyFromBytes cp
                 (dataAt (Data secret) TLSCertKey) (dataAt (Data secret) TLSPrivateKeyKey) = Inl e)
       \<or> (\<exists>certificate key e.
             GetCertificateWithPrivateKeyFromBytes cp
               (dataAt (Data secret) TLSCertKey) (dataAt (Data secret) TLSPrivateKeyKey)
               = Inr (certificate, key)
             \<and> ValidateCertificate cp certificate key certificateExpirationThreshold = Some e)))
   \<and> sint certificateExpirationThreshold = 3 * 24 * 3600 * 1000000000"
  by (auto simp: shouldUpdateCertificate_def certificateExpirationThreshold_def Hour_def Second_def
        split: option.splits sum.splits)

text \<open>On the sample secret: no renewal with generation disabled although the secret is
  empty; renewal of an empty secret with generation enabled; no renewal of valid material.\<close>

theorem shouldUpdateCertificate_decision_witness:
  "\<not> shouldUpdateCertificate (sampleCertPkg 0) (sampleReconciler False) (sampleSecret Map.empty)
   \<and> shouldUpdateCertificate (sampleCertPkg 0) (sampleReconciler True) (sampleSecret Map.empty)
   \<and> \<not> shouldUpdateCertificate (sampleCertPkg 0) (sampleReconciler True) (sampleSecret sampleData)"
  using shouldUpdateCertificate_decision[of "sampleCertPkg 0" "sampleReconciler False" "sampleSecret Map.empty"]
    shouldUpdateCertificate_decision[of "sampleCertPkg 0" "sampleReconciler True" "sampleSecret Map.empty"]
    shouldUpdateCertificate_decision[of "sampleCertPkg 0" "sampleReconciler True" "sampleSecret sampleData"]
  by (simp add: sample_defs ServiceAccountRootCAKey_def dataAt_def TLSCertKey_def TLSPrivateKeyKey_def)

subsection \<open>Idempotence of the pass\<close>




subsection \<open>Failure of the pod discovery\<close>

text \<open>
  Claim C3, as amended.  When \<open>getOperatorPods\<close> fails, the pass fails: it returns an
  error, and neither webhook configuration, nor the custom resource definition, nor any
  pod is written.  The error returned is the one of the discovery whenever the steps
  before it passed: when the secret is read, needs no renewal and holds the CA
  certificate (the store is then left untouched), and when the secret is read and
  renewed (the store then differs in the renewed secret only).
\<close>

theorem Reconcile_discovery_failure:
  assumes "getOperatorPods h s = Inl e"
  shows "(\<exists>e'. fst (Reconcile cp h r request s) = Inl e')
       \<and> validatingWebhookConfigurations (snd (Reconcile cp h r request s))
           = validatingWebhookConfigurations s
       \<and> mutatingWebhookConfigurations (snd (Reconcile cp h r request s))
           = mutatingWebhookConfigurations s
       \<and> customResourceDefinitions (snd (Reconcile cp h r request s))
           = customResourceDefinitions s
       \<and> pods (snd (Reconcile cp h r request s)) = pods s
       \<and> (\<forall>stored. clientGet SecretMeta (secrets s) request = Inr stored
             \<and> \<not> shouldUpdateCertificate cp r stored
             \<and> Data stored ''ca.crt'' \<noteq> None
             \<longrightarrow> Reconcile cp h r request s = (Inl e, s))
       \<and> (\<forall>stored ca crt key caCrt.
               clientGet SecretMeta (secrets s) request = Inr stored
             \<and> shouldUpdateCertificate cp r stored
             \<and> GenerateCertificateAuthority cp = Inr ca
             \<and> GenerateCertificate cp ca (leafCertOpts h r) = Inr (crt, key)
             \<and> fst (CACertificatePem cp ca) = Some caCrt
             \<longrightarrow> fst (Reconcile cp h r request s) = Inl e
               \<and> clientGet SecretMeta (secrets (snd (Reconcile cp h r request s))) request
                   = Inr (stored\<lparr>Data := [''tls.crt'' \<mapsto> crt, ''tls.key'' \<mapsto> key,
                                           ''ca.crt'' \<mapsto> caCrt]\<rparr>)
               \<and> (\<forall>k. k \<noteq> request
                     \<longrightarrow> clientGet SecretMeta (secrets (snd (Reconcile cp h r request s))) k
                         = clientGet SecretMeta (secrets s) k))"
proof -
  have last: "\<forall>stored. clientGet SecretMeta (secrets s) request = Inr stored
             \<and> \<not> shouldUpdateCertificate cp r stored
             \<and> Data stored ''ca.crt'' \<noteq> None
             \<longrightarrow> Reconcile cp h r request s = (Inl e, s)"
    using assms by (auto simp: Reconcile_def ServiceAccountRootCAKey_def)
  have renewed: "\<forall>stored ca crt key caCrt.
               clientGet SecretMeta (secrets s) request = Inr stored
             \<and> shouldUpdateCertificate cp r stored
             \<and> GenerateCertificateAuthority cp = Inr ca
             \<and> GenerateCertificate cp ca (leafCertOpts h r) = Inr (crt, key)
             \<and> fst (CACertificatePem cp ca) = Some caCrt
             \<longrightarrow> fst (Reconcile cp h r request s) = Inl e
               \<and> clientGet SecretMeta (secrets (snd (Reconcile cp h r request s))) request
                   = Inr (stored\<lparr>Data := [''tls.crt'' \<mapsto> crt, ''tls.key'' \<mapsto> key,
                                           ''ca.crt'' \<mapsto> caCrt]\<rparr>)
               \<and> (\<forall>k. k \<noteq> request
                     \<longrightarrow> clientGet SecretMeta (secrets (snd (Reconcile cp h r request s))) k
                         = clientGet SecretMeta (secrets s) k)"
  proof (intro allI impI)
    fix stored ca crt key caCrt
    assume a: "clientGet SecretMeta (secrets s) request = Inr stored
             \<and> shouldUpdateCertificate cp r stored
             \<and> GenerateCertificateAuthority cp = Inr ca
             \<and> GenerateCertificate cp ca (leafCertOpts h r) = Inr (crt, key)
             \<and> fst (CACertificatePem cp ca) = Some caCrt"
    then have get: "clientGet SecretMeta (secrets s) request = Inr stored"
      and should: "shouldUpdateCertificate cp r stored"
      and ca: "GenerateCertificateAuthority cp = Inr ca"
      and leaf: "GenerateCertificate cp ca (leafCertOpts h r) = Inr (crt, key)"
      and pem: "fst (CACertificatePem cp ca) = Some caCrt"
      by simp_all
    let ?sec = "stored\<lparr>Data := [TLSCertKey \<mapsto> crt, TLSPrivateKeyKey \<mapsto> key,
                                 ServiceAccountRootCAKey \<mapsto> caCrt]\<rparr>"
    from renewCertificate_success[OF get ca leaf pem] obtain s1 where
      rn: "renewCertificate cp h r stored s = (Inr ?sec, s1)"
      and g1: "clientGet SecretMeta (secrets s1) request = Inr ?sec"
      and g2: "\<forall>k. k \<noteq> request
                 \<longrightarrow> clientGet SecretMeta (secrets s1) k = clientGet SecretMeta (secrets s) k"
      by blast
    from renewCertificate_frame[OF rn] have "pods s1 = pods s" by simp
    then have "getOperatorPods h s1 = Inl e"
      using assms getOperatorPods_pods[of s1 s h] by simp
    with get should rn have "Reconcile cp h r request s = (Inl e, s1)"
      by (simp add: Reconcile_def)
    with g1 g2
    show "fst (Reconcile cp h r request s) = Inl e
               \<and> clientGet SecretMeta (secrets (snd (Reconcile cp h r request s))) request
                   = Inr (stored\<lparr>Data := [''tls.crt'' \<mapsto> crt, ''tls.key'' \<mapsto> key,
                                           ''ca.crt'' \<mapsto> caCrt]\<rparr>)
               \<and> (\<forall>k. k \<noteq> request
                     \<longrightarrow> clientGet SecretMeta (secrets (snd (Reconcile cp h r request s))) k
                         = clientGet SecretMeta (secrets s) k)"
      by (simp add: TLSCertKey_def TLSPrivateKeyKey_def ServiceAccountRootCAKey_def)
  qed
  have main: "(\<exists>e'. fst (Reconcile cp h r request s) = Inl e')
       \<and> validatingWebhookConfigurations (snd (Reconcile cp h r request s))
           = validatingWebhookConfigurations s
       \<and> mutatingWebhookConfigurations (snd (Reconcile cp h r request s))
           = mutatingWebhookConfigurations s
       \<and> customResourceDefinitions (snd (Reconcile cp h r request s))
           = customResourceDefinitions s
       \<and> pods (snd (Reconcile cp h r request s)) = pods s"
  proof (cases "clientGet SecretMeta (secrets s) request")
    case (Inl e0)
    then show ?thesis by (simp add: Reconcile_def)
  next
    case get: (Inr stored)
    obtain res1 s1 where step:
      "(if shouldUpdateCertificate cp r stored then renewCertificate cp h r stored s
        else (Inr stored, s)) = (res1, s1)"
      by (cases "if shouldUpdateCertificate cp r stored then renewCertificate cp h r stored s
                 else (Inr stored, s)")
    have frame: "validatingWebhookConfigurations s1 = validatingWebhookConfigurations s
       \<and> mutatingWebhookConfigurations s1 = mutatingWebhookConfigurations s
       \<and> customResourceDefinitions s1 = customResourceDefinitions s
       \<and> pods s1 = pods s"
      using step renewCertificate_frame[of cp h r stored s res1 s1]
      by (auto split: if_splits)
    then have "getOperatorPods h s1 = Inl e"
      using assms getOperatorPods_pods[of s1 s h] by simp
    with get step frame show ?thesis
      by (cases res1) (auto simp: Reconcile_def split: option.splits)
  qed
  from main last renewed show ?thesis by blast
qed

text \<open>On the sample cluster, run on a host whose name is not that of a pod: with valid
  material in the secret, and with an empty secret that the pass renews first.\<close>

theorem Reconcile_discovery_failure_witness:
  "getOperatorPods (sampleHost ''laptop'' 1700000000000000000) (sampleCluster sampleData [] None None)
     = Inl NotFound
   \<and> Reconcile (sampleCertPkg 1700864000000000000) (sampleHost ''laptop'' 1700000000000000000)
       (sampleReconciler True) sampleRequest (sampleCluster sampleData [] None None)
     = (Inl NotFound, sampleCluster sampleData [] None None)
   \<and> getOperatorPods (sampleHost ''laptop'' 1700000000000000000) (sampleCluster Map.empty [] None None)
     = Inl NotFound
   \<and> fst (Reconcile (sampleCertPkg 1700864000000000000) (sampleHost ''laptop'' 1700000000000000000)
       (sampleReconciler True) sampleRequest (sampleCluster Map.empty [] None None))
     = Inl NotFound
   \<and> clientGet SecretMeta
       (secrets (snd (Reconcile (sampleCertPkg 1700864000000000000)
          (sampleHost ''laptop'' 1700000000000000000)
          (sampleReconciler True) sampleRequest (sampleCluster Map.empty [] None None))))
       sampleRequest
     = Inr (sampleSecret [''tls.crt'' \<mapsto> [11], ''tls.key'' \<mapsto> [12], ''ca.crt'' \<mapsto> [13]])"
proof -
  let ?cp = "sampleCertPkg 1700864000000000000"
  let ?h = "sampleHost ''laptop'' 1700000000000000000"
  have 1: "getOperatorPods ?h (sampleCluster sampleData [] None None) = Inl NotFound"
    by (simp add: sample_defs model_defs)
  have 2: "clientGet SecretMeta (secrets (sampleCluster sampleData [] None None)) sampleRequest
             = Inr (sampleSecret sampleData)"
    by (simp add: sample_defs clientGet_def ObjectKey_def)
  have 3: "\<not> shouldUpdateCertificate ?cp (sampleReconciler True) (sampleSecret sampleData)"
    by (simp add: sample_defs model_defs)
  have 4: "Data (sampleSecret sampleData) ''ca.crt'' \<noteq> None"
    by (simp add: sample_defs)
  from Reconcile_discovery_failure[OF 1, of ?cp "sampleReconciler True" sampleRequest] 2 3 4
  have a: "Reconcile ?cp ?h (sampleReconciler True) sampleRequest
             (sampleCluster sampleData [] None None)
           = (Inl NotFound, sampleCluster sampleData [] None None)"
    by blast
  have 5: "getOperatorPods ?h (sampleCluster Map.empty [] None None) = Inl NotFound"
    by (simp add: sample_defs model_defs)
  have 6: "clientGet SecretMeta (secrets (sampleCluster Map.empty [] None None)) sampleRequest
             = Inr (sampleSecret Map.empty)"
    by (simp add: sample_defs clientGet_def ObjectKey_def)
  have 7: "shouldUpdateCertificate ?cp (sampleReconciler True) (sampleSecret Map.empty)"
    by (simp add: sample_defs shouldUpdateCertificate_def)
  have 8: "GenerateCertificateAuthority ?cp = Inr ()
         \<and> GenerateCertificate ?cp () (leafCertOpts ?h (sampleReconciler True)) = Inr ([11], [12])
         \<and> fst (CACertificatePem ?cp ()) = Some [13]"
    by (simp add: sampleCertPkg_def)
  from Reconcile_discovery_failure[OF 5, of ?cp "sampleReconciler True" sampleRequest] 6 7 8
  have b: "fst (Reconcile ?cp ?h (sampleReconciler True) sampleRequest
                  (sampleCluster Map.empty [] None None)) = Inl NotFound
         \<and> clientGet SecretMeta
             (secrets (snd (Reconcile ?cp ?h (sampleReconciler True) sampleRequest
                (sampleCluster Map.empty [] None None)))) sampleRequest
           = Inr ((sampleSecret Map.empty)\<lparr>Data := [''tls.crt'' \<mapsto> [11], ''tls.key'' \<mapsto> [12],
                                                   ''ca.crt'' \<mapsto> [13]]\<rparr>)"
    by blast
  from 1 a 5 b show ?thesis by (simp add: sampleSecret_def)
qed

text \<open>The pass does not go on after a failed discovery: on the sample cluster, run on a host
  whose name is not that of a pod, it returns the not-found error and the stale bundle
  of the validating webhook configuration stays, although the update of that
  configuration alone would have replaced it.\<close>

theorem Reconcile_discovery_counterexample:
  "getOperatorPods (sampleHost ''laptop'' 1700000000000000000) (sampleCluster sampleData [] None None)
     = Inl NotFound
   \<and> Reconcile (sampleCertPkg 1700864000000000000) (sampleHost ''laptop'' 1700000000000000000)
       (sampleReconciler True) sampleRequest (sampleCluster sampleData [] None None)
     = (Inl NotFound, sampleCluster sampleData [] None None)
   \<and> updateValidatingWebhookConfiguration (sampleReconciler True) [3]
       (sampleCluster sampleData [] None None)
     = (None, sampleCluster sampleData [] None None
                \<lparr>validatingWebhookConfigurations :=
                   [sampleConfiguration ''capsule-validating-webhook-configuration'' [3]]\<rparr>)
   \<and> sampleConfiguration ''capsule-validating-webhook-configuration'' [3]
       \<noteq> sampleConfiguration ''capsule-validating-webhook-configuration'' []"
  by (simp add: sample_defs model_defs)

subsection \<open>The requeue duration\<close>

text \<open>
  Claim C4.  After a successful pass with certificate generation enabled the duration of
  the requeue should be the time between \<open>NotAfter\<close> and now, minus four days.  On the
  sample cluster, at 2023-11-14T22:13:20Z and with a certificate in the secret that
  expires at 9999-12-31T23:59:59Z, the pass succeeds and asks for a requeue, but the
  duration it returns is negative, about minus 75838 days, while the time left minus
  four days is 251701955199 seconds: the product of the seconds and \<open>time.Second\<close>
  wraps around the 64 bits of a duration.
\<close>

theorem Reconcile_requeue_overflow:
  "fst (Reconcile (sampleCertPkg 253402300799000000000)
          (sampleHost ''capsule-controller-manager-0'' 1700000000000000000)
          (sampleReconciler True) sampleRequest (sampleCluster sampleData [] None None))
     = Inr \<lparr>Requeue = True, RequeueAfter = 11894282240775828992\<rparr>
   \<and> sint (11894282240775828992 :: 64 word) = - 6552461832933722624
   \<and> (253402300799000000000 div 1000000000 - 1700000000000000000 div 1000000000) * 1000000000
        - 4 * 24 * 3600 * 1000000000 = (251701955199000000000 :: int)"
  by (simp add: sample_defs model_defs)

text \<open>Where the value fits the signed 64 bits of a duration, the pass does return it: the
  whole seconds between \<open>NotAfter\<close> of the certificate in the secret and the current
  time, as nanoseconds, minus four days.  With generation disabled the result is the
  empty one.\<close>

lemma Reconcile_requeue_duration:
  assumes "Reconcile cp h r request s = (Inr res, s')"
  shows "(GenerateCertificates (ReconcilerConfiguration r) \<longrightarrow>
            Requeue res
          \<and> (\<exists>certSecret certificate.
                clientGet SecretMeta (secrets s') request = Inr certSecret
              \<and> GetCertificateFromBytes cp (dataAt (Data certSecret) ''tls.crt'') = Inr certificate
              \<and> (- (2 ^ 63) \<le> (NotAfter cp certificate div 1000000000
                                   - nowRequeue h div 1000000000) * 1000000000
                                 - 4 * 24 * 3600 * 1000000000
                 \<and> (NotAfter cp certificate div 1000000000
                       - nowRequeue h div 1000000000) * 1000000000
                     - 4 * 24 * 3600 * 1000000000 < 2 ^ 63
                 \<longrightarrow> sint (RequeueAfter res)
                       = (NotAfter cp certificate div 1000000000
                            - nowRequeue h div 1000000000) * 1000000000
                         - 4 * 24 * 3600 * 1000000000)))
       \<and> (\<not> GenerateCertificates (ReconcilerConfiguration r) \<longrightarrow>
            res = \<lparr>Requeue = False, RequeueAfter = 0\<rparr>)"
proof -
  from Reconcile_success[OF assms] obtain stored certSecret s1 caBundle operatorPods where
    get: "clientGet SecretMeta (secrets s) request = Inr stored"
    and step: "(if shouldUpdateCertificate cp r stored then renewCertificate cp h r stored s
                else (Inr stored, s)) = (Inr certSecret, s1)"
    and final: "if GenerateCertificates (ReconcilerConfiguration r)
             then \<exists>certificate.
                    GetCertificateFromBytes cp (dataAt (Data certSecret) TLSCertKey) = Inr certificate
                  \<and> res = \<lparr>Requeue = True,
                           RequeueAfter = requeueAfter (NotAfter cp certificate) (nowRequeue h)\<rparr>
             else res = emptyResult"
    by blast
  have "secrets (snd (Reconcile cp h r request s)) = secrets s1"
    using get step by (rule Reconcile_after_step)
  with assms have "secrets s' = secrets s1" by simp
  with step_secret(1)[OF get step]
  have sec: "clientGet SecretMeta (secrets s') request = Inr certSecret" by simp
  show ?thesis
  proof (cases "GenerateCertificates (ReconcilerConfiguration r)")
    case False
    with final show ?thesis by (simp add: emptyResult_def)
  next
    case True
    with final obtain certificate where
      c: "GetCertificateFromBytes cp (dataAt (Data certSecret) TLSCertKey) = Inr certificate"
      and res: "res = \<lparr>Requeue = True,
                       RequeueAfter = requeueAfter (NotAfter cp certificate) (nowRequeue h)\<rparr>"
      by auto
    have "Requeue res" using res by simp
    moreover have "- (2 ^ 63) \<le> (NotAfter cp certificate div 1000000000
                                   - nowRequeue h div 1000000000) * 1000000000
                                 - 4 * 24 * 3600 * 1000000000
                 \<and> (NotAfter cp certificate div 1000000000
                       - nowRequeue h div 1000000000) * 1000000000
                     - 4 * 24 * 3600 * 1000000000 < 2 ^ 63
                 \<longrightarrow> sint (RequeueAfter res)
                       = (NotAfter cp certificate div 1000000000
                            - nowRequeue h div 1000000000) * 1000000000
                         - 4 * 24 * 3600 * 1000000000"
      using requeueAfter_sint[of "NotAfter cp certificate" "nowRequeue h"] res by simp
    ultimately show ?thesis
      using True sec c unfolding TLSCertKey_def by blast
  qed
qed

text \<open>On the sample cluster with a certificate that expires in ten days the duration is six
  days; with generation disabled the result is empty.\<close>

lemma Reconcile_requeue_six_days:
  "Reconcile (sampleCertPkg 1700864000000000000)
     (sampleHost ''capsule-controller-manager-0'' 1700000000000000000)
     (sampleReconciler True) sampleRequest (sampleCluster sampleData [] None None)
   = (Inr \<lparr>Requeue = True, RequeueAfter = 518400000000000\<rparr>,
      sampleCluster sampleData [3] (Some (webhookConversion (sampleReconciler True) [3]))
        (Some [''capsule.clastix.io/updated'' \<mapsto> ''2023-11-14T22:13:20Z'']))
   \<and> (1700864000000000000 - 1700000000000000000 :: int) = 10 * 24 * 3600 * 1000000000
   \<and> sint (518400000000000 :: 64 word) = 6 * 24 * 3600 * 1000000000
   \<and> Reconcile (sampleCertPkg 1700864000000000000)
     (sampleHost ''capsule-controller-manager-0'' 1700000000000000000)
     (sampleReconciler False) sampleRequest (sampleCluster sampleData [] None None)
   = (Inr \<lparr>Requeue = False, RequeueAfter = 0\<rparr>,
      sampleCluster sampleData [3] (Some (webhookConversion (sampleReconciler False) [3]))
        (Some [''capsule.clastix.io/updated'' \<mapsto> ''2023-11-14T22:13:20Z'']))"
proof -
  have off: "Reconcile (sampleCertPkg 1700864000000000000)
     (sampleHost ''capsule-controller-manager-0'' 1700000000000000000)
     (sampleReconciler False) sampleRequest (sampleCluster sampleData [] None None)
   = (Inr \<lparr>Requeue = False, RequeueAfter = 0\<rparr>,
      sampleCluster sampleData [3] (Some (webhookConversion (sampleReconciler False) [3]))
        (Some [''capsule.clastix.io/updated'' \<mapsto> ''2023-11-14T22:13:20Z'']))"
    by (simp add: sample_defs model_defs)
  from Reconcile_requeue_duration[OF sample_pass] Reconcile_requeue_duration[OF off] sample_pass off
  show ?thesis
    by (simp add: sample_defs model_defs)
qed

subsection \<open>The webhook configurations\<close>

text \<open>
  Claim C5, as amended.  For the validating and for the mutating webhook configuration
  alike: when the configuration named in the settings is stored, the update succeeds,
  and the stored configuration afterwards has the same metadata and as many webhook
  entries as before; an entry without a service reference is the entry it was, and an
  entry with a service reference, whichever service it names, is the entry it was with
  the CA bundle of its client configuration replaced by the given bundle, nothing else
  of it being changed.
\<close>

theorem webhook_configurations_selective_update:
  "(clientGet ConfigMeta (validatingWebhookConfigurations s)
        ([], ValidatingWebhookConfigurationName (ReconcilerConfiguration r)) = Inr vw
     \<longrightarrow> (\<exists>s' vw'.
            updateValidatingWebhookConfiguration r caBundle s = (None, s')
          \<and> clientGet ConfigMeta (validatingWebhookConfigurations s')
               ([], ValidatingWebhookConfigurationName (ReconcilerConfiguration r)) = Inr vw'
          \<and> ConfigMeta vw' = ConfigMeta vw
          \<and> length (Webhooks vw') = length (Webhooks vw)
          \<and> (\<forall>i < length (Webhooks vw).
                (Service (ClientConfig (Webhooks vw ! i)) = None
                   \<longrightarrow> Webhooks vw' ! i = Webhooks vw ! i)
              \<and> (Service (ClientConfig (Webhooks vw ! i)) \<noteq> None
                   \<longrightarrow> Webhooks vw' ! i =
                         (Webhooks vw ! i)\<lparr>ClientConfig :=
                            (ClientConfig (Webhooks vw ! i))\<lparr>CABundle := caBundle\<rparr>\<rparr>))))
   \<and> (clientGet ConfigMeta (mutatingWebhookConfigurations s)
        ([], MutatingWebhookConfigurationName (ReconcilerConfiguration r)) = Inr mw
     \<longrightarrow> (\<exists>s' mw'.
            updateMutatingWebhookConfiguration r caBundle s = (None, s')
          \<and> clientGet ConfigMeta (mutatingWebhookConfigurations s')
               ([], MutatingWebhookConfigurationName (ReconcilerConfiguration r)) = Inr mw'
          \<and> ConfigMeta mw' = ConfigMeta mw
          \<and> length (Webhooks mw') = length (Webhooks mw)
          \<and> (\<forall>i < length (Webhooks mw).
                (Service (ClientConfig (Webhooks mw ! i)) = None
                   \<longrightarrow> Webhooks mw' ! i = Webhooks mw ! i)
              \<and> (Service (ClientConfig (Webhooks mw ! i)) \<noteq> None
                   \<longrightarrow> Webhooks mw' ! i =
                         (Webhooks mw ! i)\<lparr>ClientConfig :=
                            (ClientConfig (Webhooks mw ! i))\<lparr>CABundle := caBundle\<rparr>\<rparr>))))"
proof (intro conjI impI)
  assume get: "clientGet ConfigMeta (validatingWebhookConfigurations s)
        ([], ValidatingWebhookConfigurationName (ReconcilerConfiguration r)) = Inr vw"
  from webhooks_update_succeeds[OF get, of caBundle] obtain ys where
    upd: "clientUpdate ConfigMeta (validatingWebhookConfigurations s)
            (vw\<lparr>Webhooks := map (setCABundle caBundle) (Webhooks vw)\<rparr>) = Inr ys"
    and g: "clientGet ConfigMeta ys ([], ValidatingWebhookConfigurationName (ReconcilerConfiguration r))
            = Inr (vw\<lparr>Webhooks := map (setCABundle caBundle) (Webhooks vw)\<rparr>)"
    by blast
  have run: "updateValidatingWebhookConfiguration r caBundle s
               = (None, s\<lparr>validatingWebhookConfigurations := ys\<rparr>)"
    unfolding updateValidating_unfold using get upd by simp
  show "\<exists>s' vw'.
            updateValidatingWebhookConfiguration r caBundle s = (None, s')
          \<and> clientGet ConfigMeta (validatingWebhookConfigurations s')
               ([], ValidatingWebhookConfigurationName (ReconcilerConfiguration r)) = Inr vw'
          \<and> ConfigMeta vw' = ConfigMeta vw
          \<and> length (Webhooks vw') = length (Webhooks vw)
          \<and> (\<forall>i < length (Webhooks vw).
                (Service (ClientConfig (Webhooks vw ! i)) = None
                   \<longrightarrow> Webhooks vw' ! i = Webhooks vw ! i)
              \<and> (Service (ClientConfig (Webhooks vw ! i)) \<noteq> None
                   \<longrightarrow> Webhooks vw' ! i =
                         (Webhooks vw ! i)\<lparr>ClientConfig :=
                            (ClientConfig (Webhooks vw ! i))\<lparr>CABundle := caBundle\<rparr>\<rparr>))"
    apply (rule exI[of _ "s\<lparr>validatingWebhookConfigurations := ys\<rparr>"])
    apply (rule exI[of _ "vw\<lparr>Webhooks := map (setCABundle caBundle) (Webhooks vw)\<rparr>"])
    using run g setCABundle_cases[of _ caBundle] by simp
next
  assume get: "clientGet ConfigMeta (mutatingWebhookConfigurations s)
        ([], MutatingWebhookConfigurationName (ReconcilerConfiguration r)) = Inr mw"
  from webhooks_update_succeeds[OF get, of caBundle] obtain ys where
    upd: "clientUpdate ConfigMeta (mutatingWebhookConfigurations s)
            (mw\<lparr>Webhooks := map (setCABundle caBundle) (Webhooks mw)\<rparr>) = Inr ys"
    and g: "clientGet ConfigMeta ys ([], MutatingWebhookConfigurationName (ReconcilerConfiguration r))
            = Inr (mw\<lparr>Webhooks := map (setCABundle caBundle) (Webhooks mw)\<rparr>)"
    by blast
  have run: "updateMutatingWebhookConfiguration r caBundle s
               = (None, s\<lparr>mutatingWebhookConfigurations := ys\<rparr>)"
    unfolding updateMutating_unfold using get upd by simp
  show "\<exists>s' mw'.
            updateMutatingWebhookConfiguration r caBundle s = (None, s')
          \<and> clientGet ConfigMeta (mutatingWebhookConfigurations s')
               ([], MutatingWebhookConfigurationName (ReconcilerConfiguration r)) = Inr mw'
          \<and> ConfigMeta mw' = ConfigMeta mw
          \<and> length (Webhooks mw') = length (Webhooks mw)
          \<and> (\<forall>i < length (Webhooks mw).
                (Service (ClientConfig (Webhooks mw ! i)) = None
                   \<longrightarrow> Webhooks mw' ! i = Webhooks mw ! i)
              \<and> (Service (ClientConfig (Webhooks mw ! i)) \<noteq> None
                   \<longrightarrow> Webhooks mw' ! i =
                         (Webhooks mw ! i)\<lparr>ClientConfig :=
                            (ClientConfig (Webhooks mw ! i))\<lparr>CABundle := caBundle\<rparr>\<rparr>))"
    apply (rule exI[of _ "s\<lparr>mutatingWebhookConfigurations := ys\<rparr>"])
    apply (rule exI[of _ "mw\<lparr>Webhooks := map (setCABundle caBundle) (Webhooks mw)\<rparr>"])
    using run g setCABundle_cases[of _ caBundle] by simp
qed

text \<open>On the sample cluster: the entry for the internal service gets the bundle, the entry for
  the external URL keeps its own.\<close>

theorem webhook_configurations_selective_update_witness:
  "clientGet ConfigMeta (validatingWebhookConfigurations (sampleCluster sampleData [] None None))
      ([], ValidatingWebhookConfigurationName (ReconcilerConfiguration (sampleReconciler True)))
     = Inr (sampleConfiguration ''capsule-validating-webhook-configuration'' [])
   \<and> clientGet ConfigMeta (mutatingWebhookConfigurations (sampleCluster sampleData [] None None))
      ([], MutatingWebhookConfigurationName (ReconcilerConfiguration (sampleReconciler True)))
     = Inr (sampleConfiguration ''capsule-mutating-webhook-configuration'' [])
   \<and> updateValidatingWebhookConfiguration (sampleReconciler True) [3]
       (sampleCluster sampleData [] None None)
     = (None, sampleCluster sampleData [] None None
                \<lparr>validatingWebhookConfigurations :=
                   [sampleConfiguration ''capsule-validating-webhook-configuration'' [3]]\<rparr>)
   \<and> updateMutatingWebhookConfiguration (sampleReconciler True) [3]
       (sampleCluster sampleData [] None None)
     = (None, sampleCluster sampleData [] None None
                \<lparr>mutatingWebhookConfigurations :=
                   [sampleConfiguration ''capsule-mutating-webhook-configuration'' [3]]\<rparr>)
   \<and> sampleWebhooks [3] ! 1 = sampleWebhooks [] ! 1"
proof -
  have v: "clientGet ConfigMeta (validatingWebhookConfigurations (sampleCluster sampleData [] None None))
      ([], ValidatingWebhookConfigurationName (ReconcilerConfiguration (sampleReconciler True)))
     = Inr (sampleConfiguration ''capsule-validating-webhook-configuration'' [])"
    by (simp add: sample_defs clientGet_def ObjectKey_def)
  have m: "clientGet ConfigMeta (mutatingWebhookConfigurations (sampleCluster sampleData [] None None))
      ([], MutatingWebhookConfigurationName (ReconcilerConfiguration (sampleReconciler True)))
     = Inr (sampleConfiguration ''capsule-mutating-webhook-configuration'' [])"
    by (simp add: sample_defs clientGet_def ObjectKey_def)
  note inst = webhook_configurations_selective_update[of "sampleCluster sampleData [] None None"
      "sampleReconciler True" "sampleConfiguration ''capsule-validating-webhook-configuration'' []"
      "[3]" "sampleConfiguration ''capsule-mutating-webhook-configuration'' []"]
  from inst v have "\<exists>s'. updateValidatingWebhookConfiguration (sampleReconciler True) [3]
       (sampleCluster sampleData [] None None) = (None, s')"
    by blast
  moreover from inst m have "\<exists>s'. updateMutatingWebhookConfiguration (sampleReconciler True) [3]
       (sampleCluster sampleData [] None None) = (None, s')"
    by blast
  ultimately show ?thesis
    using v m by (simp add: sample_defs model_defs)
qed

text \<open>The bundle is not written to the entries of the internal service only: in a
  validating webhook configuration whose one entry refers to the service \<open>other-svc\<close> in
  the namespace \<open>other-ns\<close>, the update replaces the bundle of that entry.\<close>

theorem webhook_configurations_counterexample:
  "Service (ClientConfig (foreignWebhook [7]))
     = Some \<lparr>SvcNamespace = ''other-ns'', SvcName = ''other-svc'', Path = None, Port = None\<rparr>
   \<and> ''other-svc'' \<noteq> ''capsule-webhook-service''
   \<and> updateValidatingWebhookConfiguration (sampleReconciler True) [3] (foreignCluster [7])
     = (None, foreignCluster [3])
   \<and> CABundle (ClientConfig (foreignWebhook [7])) = [7]
   \<and> CABundle (ClientConfig (foreignWebhook [3])) = [3]
   \<and> foreignWebhook [3] \<noteq> foreignWebhook [7]"
  by (simp add: sample_defs model_defs foreignWebhook_def foreignCluster_def)

subsection \<open>Renewal of the certificate\<close>

text \<open>
  Claim C6.  A pass that renews should either fail with the error of the generation and
  leave the secret as it was, or persist the three fields together.  On the sample
  cluster with an empty secret and a certificate package that generates the authority
  and the leaf certificate but returns no buffer (and an error) for the CA certificate,
  the pass does neither: the error of \<open>CACertificatePem\<close> is dropped, the missing
  buffer is dereferenced, and the pass ends in a nil pointer dereference with the store
  as it was.
\<close>

theorem Reconcile_renewal_nil_pem:
  "shouldUpdateCertificate
     ((sampleCertPkg 1700864000000000000)
        \<lparr>CACertificatePem := (\<lambda>ca. (None, Some (CertError ''cannot encode'')))\<rparr>)
     (sampleReconciler True) (sampleSecret Map.empty)
   \<and> GenerateCertificateAuthority
       ((sampleCertPkg 1700864000000000000)
          \<lparr>CACertificatePem := (\<lambda>ca. (None, Some (CertError ''cannot encode'')))\<rparr>) = Inr ()
   \<and> GenerateCertificate
       ((sampleCertPkg 1700864000000000000)
          \<lparr>CACertificatePem := (\<lambda>ca. (None, Some (CertError ''cannot encode'')))\<rparr>) ()
       (leafCertOpts (sampleHost ''capsule-controller-manager-0'' 1700000000000000000)
          (sampleReconciler True)) = Inr ([11], [12])
   \<and> Reconcile
       ((sampleCertPkg 1700864000000000000)
          \<lparr>CACertificatePem := (\<lambda>ca. (None, Some (CertError ''cannot encode'')))\<rparr>)
       (sampleHost ''capsule-controller-manager-0'' 1700000000000000000)
       (sampleReconciler True) sampleRequest (sampleCluster Map.empty [] None None)
     = (Inl NilPointerDereference, sampleCluster Map.empty [] None None)"
  by (simp add: sample_defs model_defs)

text \<open>The other cases of a pass that reads the secret and decides to renew.  When the
  generation of the certificate authority fails, or that of the leaf certificate, the
  pass returns that error and the store is the one it started on, so the secret is not
  written.  When both succeed and the CA certificate is encoded, the secret stored under
  the requested name afterwards is the secret read, with its metadata and type, whose
  data are exactly the three fields \<open>tls.crt\<close>, \<open>tls.key\<close> and \<open>ca.crt\<close> with the new
  material, written by the one call of \<open>CreateOrUpdate\<close>; no other secret changes.  When
  both succeed and there is no buffer for the CA certificate, the pass ends in the nil
  pointer dereference and writes nothing.\<close>

lemma Reconcile_renewal_persistence:
  assumes get: "clientGet SecretMeta (secrets s) request = Inr stored"
      and should: "shouldUpdateCertificate cp r stored"
  shows "(\<forall>e. GenerateCertificateAuthority cp = Inl e
              \<longrightarrow> Reconcile cp h r request s = (Inl e, s))
       \<and> (\<forall>ca e. GenerateCertificateAuthority cp = Inr ca
                \<and> GenerateCertificate cp ca (leafCertOpts h r) = Inl e
              \<longrightarrow> Reconcile cp h r request s = (Inl e, s))
       \<and> (\<forall>ca crt key caCrt.
              GenerateCertificateAuthority cp = Inr ca
              \<and> GenerateCertificate cp ca (leafCertOpts h r) = Inr (crt, key)
              \<and> fst (CACertificatePem cp ca) = Some caCrt
              \<longrightarrow> clientGet SecretMeta (secrets (snd (Reconcile cp h r request s))) request
                    = Inr (stored\<lparr>Data := [''tls.crt'' \<mapsto> crt, ''tls.key'' \<mapsto> key,
                                            ''ca.crt'' \<mapsto> caCrt]\<rparr>)
                  \<and> (\<forall>k. k \<noteq> request
                        \<longrightarrow> clientGet SecretMeta (secrets (snd (Reconcile cp h r request s))) k
                            = clientGet SecretMeta (secrets s) k))
       \<and> (\<forall>ca crt key.
              GenerateCertificateAuthority cp = Inr ca
              \<and> GenerateCertificate cp ca (leafCertOpts h r) = Inr (crt, key)
              \<and> fst (CACertificatePem cp ca) = None
              \<longrightarrow> Reconcile cp h r request s = (Inl NilPointerDereference, s))"
proof (intro conjI allI impI)
  fix e assume "GenerateCertificateAuthority cp = Inl e"
  with get should show "Reconcile cp h r request s = (Inl e, s)"
    by (simp add: Reconcile_def renewCertificate_def)
next
  fix ca e
  assume "GenerateCertificateAuthority cp = Inr ca
            \<and> GenerateCertificate cp ca (leafCertOpts h r) = Inl e"
  with get should show "Reconcile cp h r request s = (Inl e, s)"
    by (simp add: Reconcile_def renewCertificate_def)
next
  fix ca crt key
  assume "GenerateCertificateAuthority cp = Inr ca
            \<and> GenerateCertificate cp ca (leafCertOpts h r) = Inr (crt, key)
            \<and> fst (CACertificatePem cp ca) = None"
  with get should show "Reconcile cp h r request s = (Inl NilPointerDereference, s)"
    by (simp add: Reconcile_def renewCertificate_def)
next
  fix ca crt key caCrt
  assume gen: "GenerateCertificateAuthority cp = Inr ca
              \<and> GenerateCertificate cp ca (leafCertOpts h r) = Inr (crt, key)
              \<and> fst (CACertificatePem cp ca) = Some caCrt"
  let ?sec = "stored\<lparr>Data := [TLSCertKey \<mapsto> crt, TLSPrivateKeyKey \<mapsto> key,
                               ServiceAccountRootCAKey \<mapsto> caCrt]\<rparr>"
  from gen renewCertificate_success[OF get, of cp ca h r crt key caCrt]
  obtain s1 where rn: "renewCertificate cp h r stored s = (Inr ?sec, s1)"
    and g1: "clientGet SecretMeta (secrets s1) request = Inr ?sec"
    and g2: "\<forall>k. k \<noteq> request \<longrightarrow> clientGet SecretMeta (secrets s1) k = clientGet SecretMeta (secrets s) k"
    by blast
  have "secrets (snd (Reconcile cp h r request s)) = secrets s1"
    by (rule Reconcile_after_step[OF get]) (use should rn in simp)
  with g1 g2
  show "clientGet SecretMeta (secrets (snd (Reconcile cp h r request s))) request
          = Inr (stored\<lparr>Data := [''tls.crt'' \<mapsto> crt, ''tls.key'' \<mapsto> key, ''ca.crt'' \<mapsto> caCrt]\<rparr>)"
    by (simp add: TLSCertKey_def TLSPrivateKeyKey_def ServiceAccountRootCAKey_def)
  fix k assume "k \<noteq> request"
  with g2 \<open>secrets (snd (Reconcile cp h r request s)) = secrets s1\<close>
  show "clientGet SecretMeta (secrets (snd (Reconcile cp h r request s))) k
          = clientGet SecretMeta (secrets s) k"
    by metis
qed

text \<open>On the sample cluster with an empty secret, for a certificate package that fails to
  create the authority, one that fails to sign the leaf, and one that succeeds.\<close>

lemma Reconcile_renewal_sample:
  "clientGet SecretMeta (secrets (sampleCluster Map.empty [] None None)) sampleRequest
     = Inr (sampleSecret Map.empty)
   \<and> shouldUpdateCertificate (sampleCertPkg 1700864000000000000) (sampleReconciler True)
       (sampleSecret Map.empty)
   \<and> Reconcile ((sampleCertPkg 1700864000000000000)
                  \<lparr>GenerateCertificateAuthority := Inl (CertError ''no entropy'')\<rparr>)
       (sampleHost ''capsule-controller-manager-0'' 1700000000000000000)
       (sampleReconciler True) sampleRequest (sampleCluster Map.empty [] None None)
     = (Inl (CertError ''no entropy''), sampleCluster Map.empty [] None None)
   \<and> Reconcile ((sampleCertPkg 1700864000000000000)
                  \<lparr>GenerateCertificate := (\<lambda>ca opts. Inl (CertError ''cannot sign''))\<rparr>)
       (sampleHost ''capsule-controller-manager-0'' 1700000000000000000)
       (sampleReconciler True) sampleRequest (sampleCluster Map.empty [] None None)
     = (Inl (CertError ''cannot sign''), sampleCluster Map.empty [] None None)
   \<and> clientGet SecretMeta
       (secrets (snd (Reconcile (sampleCertPkg 1700864000000000000)
          (sampleHost ''capsule-controller-manager-0'' 1700000000000000000)
          (sampleReconciler True) sampleRequest (sampleCluster Map.empty [] None None))))
       sampleRequest
     = Inr (sampleSecret [''tls.crt'' \<mapsto> [11], ''tls.key'' \<mapsto> [12], ''ca.crt'' \<mapsto> [13]])"
proof -
  let ?h = "sampleHost ''capsule-controller-manager-0'' 1700000000000000000"
  let ?s = "sampleCluster Map.empty [] None None"
  have get: "clientGet SecretMeta (secrets ?s) sampleRequest = Inr (sampleSecret Map.empty)"
    by (simp add: sample_defs clientGet_def ObjectKey_def)
  have should: "shouldUpdateCertificate cp (sampleReconciler True) (sampleSecret Map.empty)" for cp
    by (simp add: sample_defs shouldUpdateCertificate_def)
  have 1: "Reconcile ((sampleCertPkg 1700864000000000000)
                  \<lparr>GenerateCertificateAuthority := Inl (CertError ''no entropy'')\<rparr>)
       ?h (sampleReconciler True) sampleRequest ?s = (Inl (CertError ''no entropy''), ?s)"
    using Reconcile_renewal_persistence[OF get should,
        of "(sampleCertPkg 1700864000000000000)
              \<lparr>GenerateCertificateAuthority := Inl (CertError ''no entropy'')\<rparr>" ?h]
    by (simp add: sampleCertPkg_def)
  have 2: "Reconcile ((sampleCertPkg 1700864000000000000)
                  \<lparr>GenerateCertificate := (\<lambda>ca opts. Inl (CertError ''cannot sign''))\<rparr>)
       ?h (sampleReconciler True) sampleRequest ?s = (Inl (CertError ''cannot sign''), ?s)"
    using Reconcile_renewal_persistence[OF get should,
        of "(sampleCertPkg 1700864000000000000)
              \<lparr>GenerateCertificate := (\<lambda>ca opts. Inl (CertError ''cannot sign''))\<rparr>" ?h]
    by (simp add: sampleCertPkg_def)
  have 3: "clientGet SecretMeta
       (secrets (snd (Reconcile (sampleCertPkg 1700864000000000000) ?h
          (sampleReconciler True) sampleRequest ?s))) sampleRequest
     = Inr (sampleSecret [''tls.crt'' \<mapsto> [11], ''tls.key'' \<mapsto> [12], ''ca.crt'' \<mapsto> [13]])"
    using Reconcile_renewal_persistence[OF get should, of "sampleCertPkg 1700864000000000000" ?h]
    by (simp add: sampleCertPkg_def sampleSecret_def)
  from get should 1 2 3 show ?thesis by blast
qed

subsection \<open>The custom resource definition\<close>

text \<open>
  Claim C7.  When the definition \<open>tenants.capsule.clastix.io\<close> is stored, its update
  succeeds and the stored definition afterwards is the one before with the conversion
  set to: strategy \<open>Webhook\<close>; the service reference with the namespace of the
  reconciler, the name \<open>capsule-webhook-service\<close>, the path \<open>/convert\<close> and the
  port 443; the given CA bundle; and the review versions \<open>v1alpha1\<close> and \<open>v1beta1\<close>.
\<close>

theorem updateCustomResourceDefinition_conversion:
  assumes "clientGet CRDMeta (customResourceDefinitions s) ([], ''tenants.capsule.clastix.io'') = Inr crd"
  shows "\<exists>s'. updateCustomResourceDefinition r caBundle s = (None, s')
          \<and> clientGet CRDMeta (customResourceDefinitions s') ([], ''tenants.capsule.clastix.io'')
              = Inr (crd\<lparr>Conversion := Some
                     \<lparr>Strategy = ''Webhook'',
                      ConversionWebhook = Some
                        \<lparr>ConversionClientConfig = Some
                           \<lparr>URL = None,
                            Service = Some
                              \<lparr>SvcNamespace = ReconcilerNamespace r,
                               SvcName = ''capsule-webhook-service'',
                               Path = Some ''/convert'',
                               Port = Some 443\<rparr>,
                            CABundle = caBundle\<rparr>,
                         ConversionReviewVersions = [''v1alpha1'', ''v1beta1'']\<rparr>\<rparr>\<rparr>)"
proof -
  let ?k = "([], ''tenants.capsule.clastix.io'')"
  let ?f = "\<lambda>c. c\<lparr>Conversion := Some (webhookConversion r caBundle)\<rparr>"
  have k: "ObjectKey (CRDMeta crd) = ?k" using assms by (rule clientGet_key)
  have get': "clientGet CRDMeta (customResourceDefinitions s) (ObjectKey (CRDMeta crd)) = Inr crd"
    using assms k by simp
  obtain ys where cu: "CreateOrUpdate CRDMeta (customResourceDefinitions s) crd ?f = Inr ys"
    using CreateOrUpdate_succeeds[OF get', of ?f] by auto
  have "clientGet CRDMeta ys (ObjectKey (CRDMeta crd)) = Inr (?f crd)"
    by (rule CreateOrUpdate_found(1)[OF get' cu]) simp
  then have "clientGet CRDMeta ys ?k = Inr (?f crd)" using k by simp
  with assms cu show ?thesis
    unfolding updateCRD_unfold by (simp add: webhookConversion_def)
qed

text \<open>On the sample cluster.\<close>

theorem updateCustomResourceDefinition_conversion_witness:
  "clientGet CRDMeta (customResourceDefinitions (sampleCluster sampleData [] None None))
      ([], ''tenants.capsule.clastix.io'') = Inr (sampleCRD None)
   \<and> updateCustomResourceDefinition (sampleReconciler True) [3]
        (sampleCluster sampleData [] None None)
      = (None, sampleCluster sampleData [] None None
           \<lparr>customResourceDefinitions :=
              [sampleCRD (Some
                 \<lparr>Strategy = ''Webhook'',
                  ConversionWebhook = Some
                    \<lparr>ConversionClientConfig = Some
                       \<lparr>URL = None,
                        Service = Some
                          \<lparr>SvcNamespace = ''capsule-system'',
                           SvcName = ''capsule-webhook-service'',
                           Path = Some ''/convert'',
                           Port = Some 443\<rparr>,
                        CABundle = [3]\<rparr>,
                     ConversionReviewVersions = [''v1alpha1'', ''v1beta1'']\<rparr>\<rparr>)]\<rparr>)"
proof -
  have get: "clientGet CRDMeta (customResourceDefinitions (sampleCluster sampleData [] None None))
      ([], ''tenants.capsule.clastix.io'') = Inr (sampleCRD None)"
    by (simp add: sample_defs clientGet_def ObjectKey_def)
  from updateCustomResourceDefinition_conversion[OF get, of "sampleReconciler True" "[3]"]
  obtain s' where "updateCustomResourceDefinition (sampleReconciler True) [3]
        (sampleCluster sampleData [] None None) = (None, s')"
    by blast
  with get show ?thesis
    by (simp add: sample_defs model_defs)
qed

subsection \<open>The request for the leaf certificate\<close>

text \<open>
  Claim C8.  The validity is 180 days, and the options of the leaf certificate are an
  expiry 180 days after the current time and the one DNS name
  \<open>capsule-webhook-service.<namespace>.svc\<close>.  The pass asks for a leaf certificate
  with these options only: replacing the generation function by any other that answers
  alike for these options does not change the pass.  And when the pass renews, the
  certificate and key it stores are the ones returned for these options.
\<close>

theorem Reconcile_leaf_request:
  "sint certificateValidity = 180 * 24 * 3600 * 1000000000
   \<and> leafCertOpts h r =
       NewCertOpts (nowIssue h + 180 * 24 * 3600 * 1000000000)
         [''capsule-webhook-service.'' @ ReconcilerNamespace r @ ''.svc'']
   \<and> ((\<forall>ca. g ca (NewCertOpts (nowIssue h + 180 * 24 * 3600 * 1000000000)
                   [''capsule-webhook-service.'' @ ReconcilerNamespace r @ ''.svc''])
              = GenerateCertificate cp ca
                  (NewCertOpts (nowIssue h + 180 * 24 * 3600 * 1000000000)
                     [''capsule-webhook-service.'' @ ReconcilerNamespace r @ ''.svc'']))
        \<longrightarrow> Reconcile (cp\<lparr>GenerateCertificate := g\<rparr>) h r request s = Reconcile cp h r request s)
   \<and> (\<forall>stored ca crt key caCrt.
         clientGet SecretMeta (secrets s) request = Inr stored
         \<and> shouldUpdateCertificate cp r stored
         \<and> GenerateCertificateAuthority cp = Inr ca
         \<and> GenerateCertificate cp ca
              (NewCertOpts (nowIssue h + 180 * 24 * 3600 * 1000000000)
                 [''capsule-webhook-service.'' @ ReconcilerNamespace r @ ''.svc'']) = Inr (crt, key)
         \<and> fst (CACertificatePem cp ca) = Some caCrt
         \<longrightarrow> (\<exists>sec. clientGet SecretMeta (secrets (snd (Reconcile cp h r request s))) request = Inr sec
                   \<and> Data sec ''tls.crt'' = Some crt \<and> Data sec ''tls.key'' = Some key))"
proof (intro conjI allI impI)
  show "sint certificateValidity = 180 * 24 * 3600 * 1000000000"
    by (simp add: certificateValidity_sint)
  show opts: "leafCertOpts h r =
       NewCertOpts (nowIssue h + 180 * 24 * 3600 * 1000000000)
         [''capsule-webhook-service.'' @ ReconcilerNamespace r @ ''.svc'']"
    by (simp add: leafCertOpts_def Add_def certificateValidity_sint)
  {
    assume "\<forall>ca. g ca (NewCertOpts (nowIssue h + 180 * 24 * 3600 * 1000000000)
                   [''capsule-webhook-service.'' @ ReconcilerNamespace r @ ''.svc''])
              = GenerateCertificate cp ca
                  (NewCertOpts (nowIssue h + 180 * 24 * 3600 * 1000000000)
                     [''capsule-webhook-service.'' @ ReconcilerNamespace r @ ''.svc''])"
    then have g: "\<And>ca. g ca (leafCertOpts h r) = GenerateCertificate cp ca (leafCertOpts h r)"
      unfolding opts by simp
    have "renewCertificate (cp\<lparr>GenerateCertificate := g\<rparr>) h r sec s = renewCertificate cp h r sec s"
      for sec
      by (simp add: renewCertificate_def g split: sum.splits)
    then show "Reconcile (cp\<lparr>GenerateCertificate := g\<rparr>) h r request s = Reconcile cp h r request s"
      by (simp add: Reconcile_def del: groupWait.simps
            cong: sum.case_cong option.case_cong prod.case_cong if_cong)
  }
  fix stored ca crt key caCrt
  assume a: "clientGet SecretMeta (secrets s) request = Inr stored
         \<and> shouldUpdateCertificate cp r stored
         \<and> GenerateCertificateAuthority cp = Inr ca
         \<and> GenerateCertificate cp ca
              (NewCertOpts (nowIssue h + 180 * 24 * 3600 * 1000000000)
                 [''capsule-webhook-service.'' @ ReconcilerNamespace r @ ''.svc'']) = Inr (crt, key)
         \<and> fst (CACertificatePem cp ca) = Some caCrt"
  then have get: "clientGet SecretMeta (secrets s) request = Inr stored"
    and should: "shouldUpdateCertificate cp r stored"
    and ca: "GenerateCertificateAuthority cp = Inr ca"
    and leaf: "GenerateCertificate cp ca (leafCertOpts h r) = Inr (crt, key)"
    and pem: "fst (CACertificatePem cp ca) = Some caCrt"
    unfolding opts by simp_all
  let ?sec = "stored\<lparr>Data := [TLSCertKey \<mapsto> crt, TLSPrivateKeyKey \<mapsto> key,
                               ServiceAccountRootCAKey \<mapsto> caCrt]\<rparr>"
  from renewCertificate_success[OF get ca leaf pem]
  obtain s1 where rn: "renewCertificate cp h r stored s = (Inr ?sec, s1)"
    and g1: "clientGet SecretMeta (secrets s1) request = Inr ?sec"
    by blast
  have "secrets (snd (Reconcile cp h r request s)) = secrets s1"
    by (rule Reconcile_after_step[OF get]) (use should rn in simp)
  with g1 show "\<exists>sec. clientGet SecretMeta (secrets (snd (Reconcile cp h r request s))) request = Inr sec
                   \<and> Data sec ''tls.crt'' = Some crt \<and> Data sec ''tls.key'' = Some key"
    by (simp add: TLSCertKey_def TLSPrivateKeyKey_def ServiceAccountRootCAKey_def)
qed

text \<open>On the sample cluster with an empty secret, against a generation function that rejects
  every other option.\<close>

theorem Reconcile_leaf_request_witness:
  "Reconcile ((sampleCertPkg 1700864000000000000)
       \<lparr>GenerateCertificate := (\<lambda>ca opts.
           if opts = NewCertOpts (1700000000000000000 + 180 * 24 * 3600 * 1000000000)
                       [''capsule-webhook-service.capsule-system.svc'']
           then Inr ([11], [12]) else Inl (CertError ''unexpected options''))\<rparr>)
     (sampleHost ''capsule-controller-manager-0'' 1700000000000000000)
     (sampleReconciler True) sampleRequest (sampleCluster Map.empty [] None None)
   = Reconcile (sampleCertPkg 1700864000000000000)
     (sampleHost ''capsule-controller-manager-0'' 1700000000000000000)
     (sampleReconciler True) sampleRequest (sampleCluster Map.empty [] None None)
   \<and> (\<exists>sec. clientGet SecretMeta
         (secrets (snd (Reconcile (sampleCertPkg 1700864000000000000)
            (sampleHost ''capsule-controller-manager-0'' 1700000000000000000)
            (sampleReconciler True) sampleRequest (sampleCluster Map.empty [] None None))))
         sampleRequest = Inr sec
       \<and> Data sec ''tls.crt'' = Some [11] \<and> Data sec ''tls.key'' = Some [12])"
proof -
  let ?h = "sampleHost ''capsule-controller-manager-0'' 1700000000000000000"
  let ?s = "sampleCluster Map.empty [] None None"
  let ?g = "\<lambda>(ca::unit) opts.
           if opts = NewCertOpts (1700000000000000000 + 180 * 24 * 3600 * 1000000000)
                       [''capsule-webhook-service.capsule-system.svc'']
           then Inr ([11], [12]) else Inl (CertError ''unexpected options'')"
  note inst = Reconcile_leaf_request[of ?h "sampleReconciler True" ?g
      "sampleCertPkg 1700864000000000000" sampleRequest ?s]
  have get: "clientGet SecretMeta (secrets ?s) sampleRequest = Inr (sampleSecret Map.empty)"
    by (simp add: sample_defs clientGet_def ObjectKey_def)
  have should: "shouldUpdateCertificate (sampleCertPkg 1700864000000000000)
                  (sampleReconciler True) (sampleSecret Map.empty)"
    by (simp add: sample_defs shouldUpdateCertificate_def)
  have agree: "\<forall>ca. ?g ca (NewCertOpts (nowIssue ?h + 180 * 24 * 3600 * 1000000000)
                   [''capsule-webhook-service.'' @ ReconcilerNamespace (sampleReconciler True) @ ''.svc''])
              = GenerateCertificate (sampleCertPkg 1700864000000000000) ca
                  (NewCertOpts (nowIssue ?h + 180 * 24 * 3600 * 1000000000)
                     [''capsule-webhook-service.'' @ ReconcilerNamespace (sampleReconciler True) @ ''.svc''])"
    by (simp add: sample_defs)
  have gen: "GenerateCertificateAuthority (sampleCertPkg 1700864000000000000) = Inr ()
         \<and> GenerateCertificate (sampleCertPkg 1700864000000000000) ()
              (NewCertOpts (nowIssue ?h + 180 * 24 * 3600 * 1000000000)
                 [''capsule-webhook-service.'' @ ReconcilerNamespace (sampleReconciler True) @ ''.svc''])
             = Inr ([11], [12])
         \<and> fst (CACertificatePem (sampleCertPkg 1700864000000000000) ()) = Some [13]"
    by (simp add: sample_defs)
  from inst agree have 1: "Reconcile ((sampleCertPkg 1700864000000000000)\<lparr>GenerateCertificate := ?g\<rparr>)
      ?h (sampleReconciler True) sampleRequest ?s
    = Reconcile (sampleCertPkg 1700864000000000000) ?h (sampleReconciler True) sampleRequest ?s"
    by blast
  from inst get should gen have 2: "\<exists>sec. clientGet SecretMeta
         (secrets (snd (Reconcile (sampleCertPkg 1700864000000000000) ?h
            (sampleReconciler True) sampleRequest ?s))) sampleRequest = Inr sec
       \<and> Data sec ''tls.crt'' = Some [11] \<and> Data sec ''tls.key'' = Some [12]"
    by blast
  from 1 2 show ?thesis by blast
qed

subsection \<open>A secret without the CA certificate\<close>

text \<open>
  Claim C10.  When the secret read by the pass needs no renewal and has no \<open>ca.crt\<close>
  field, the pass returns the error \<open>missing ca.crt field in <secret name> secret\<close> and
  the store is the one it started on: no webhook configuration, custom resource
  definition or pod is updated.  (A secret renewed by the pass always has the field.)
\<close>

theorem Reconcile_missing_ca_field:
  assumes "clientGet SecretMeta (secrets s) request = Inr stored"
      and "\<not> shouldUpdateCertificate cp r stored"
      and "Data stored ServiceAccountRootCAKey = None"
  shows "Reconcile cp h r request s =
           (Inl (Errorf (''missing ca.crt field in ''
                          @ TLSSecretName (ReconcilerConfiguration r) @ '' secret'')), s)"
  using assms by (simp add: Reconcile_def ServiceAccountRootCAKey_def)

text \<open>On the sample cluster with an empty secret and generation disabled.\<close>

theorem Reconcile_missing_ca_field_witness:
  "clientGet SecretMeta (secrets (sampleCluster Map.empty [] None None)) sampleRequest
     = Inr (sampleSecret Map.empty)
   \<and> \<not> shouldUpdateCertificate (sampleCertPkg 0) (sampleReconciler False) (sampleSecret Map.empty)
   \<and> Data (sampleSecret Map.empty) ServiceAccountRootCAKey = None
   \<and> Reconcile (sampleCertPkg 0) (sampleHost ''capsule-controller-manager-0'' 1700000000000000000)
        (sampleReconciler False) sampleRequest (sampleCluster Map.empty [] None None)
      = (Inl (Errorf ''missing ca.crt field in capsule-tls secret''),
         sampleCluster Map.empty [] None None)"
proof -
  have 1: "clientGet SecretMeta (secrets (sampleCluster Map.empty [] None None)) sampleRequest
             = Inr (sampleSecret Map.empty)"
    by (simp add: sample_defs clientGet_def ObjectKey_def)
  have 2: "\<not> shouldUpdateCertificate (sampleCertPkg 0) (sampleReconciler False) (sampleSecret Map.empty)"
    by (simp add: sample_defs shouldUpdateCertificate_def)
  have 3: "Data (sampleSecret Map.empty) ServiceAccountRootCAKey = None"
    by (simp add: sample_defs)
  from Reconcile_missing_ca_field[OF 1 2 3,
      of "sampleHost ''capsule-controller-manager-0'' 1700000000000000000"] 1 2 3
  show ?thesis by (simp add: sampleReconciler_def)
qed

end
